theory Spec2Isabelle
  imports Main
begin

text \<open>
  A model of the GCN circular monitor: the extraction engine of
  \<^verbatim>\<open>llm_utils.py\<close>, the text retriever of \<^verbatim>\<open>gcn_utils.py\<close>, the two stores
  of \<^verbatim>\<open>data_manager.py\<close> and the polling loop of \<^verbatim>\<open>main.py\<close>, each function
  translated branch by branch, with everything the code receives from outside (the
  network, the inference service, the JSON library, the operating system, the
  configuration) as an argument.  The definitions come first, then facts about them,
  then the properties of the specification.
\<close>

section \<open>Python values\<close>

text \<open>
  The monitor handles three kinds of Python data: text, the values that
  \<^verbatim>\<open>json.loads\<close> produces, and dictionaries with string keys.  Text is a
  \<^typ>\<open>string\<close>.  A float is never computed with, only stored and tested by
  \<^verbatim>\<open>isinstance\<close>, so it is kept as an opaque value.  A dictionary is an
  association list in insertion order (Python dictionaries are ordered).
\<close>

datatype pyfloat = Finite int int | PosInf | NegInf | NaN

datatype json =
    JNull
  | JBool bool
  | JInt int
  | JFloat pyfloat
  | JStr string
  | JList "json list"
  | JObj "(string \<times> json) list"

type_synonym dict = "(string \<times> json) list"

text \<open>
  The exceptions that the modelled code raises or catches.  A
  \<^verbatim>\<open>requests.exceptions.Timeout\<close> is a \<^verbatim>\<open>RequestException\<close>; the
  \<^verbatim>\<open>JSONDecodeError\<close> of \<^verbatim>\<open>requests\<close> is both a \<^verbatim>\<open>RequestException\<close>
  and a \<^verbatim>\<open>json.JSONDecodeError\<close>.  Each carries the text that \<^verbatim>\<open>str(e)\<close> gives.
\<close>

datatype py_exc =
    Timeout string
  | RequestException string
  | RequestsJSONDecodeError string
  | JSONDecodeError string
  | ValueError string
  | TypeError string
  | KeyError string
  | NameError string
  | OSError string
  | OtherException string

fun exc_str :: "py_exc \<Rightarrow> string" where
  "exc_str (Timeout m) = m"
| "exc_str (RequestException m) = m"
| "exc_str (RequestsJSONDecodeError m) = m"
| "exc_str (JSONDecodeError m) = m"
| "exc_str (ValueError m) = m"
| "exc_str (TypeError m) = m"
| "exc_str (KeyError m) = m"
| "exc_str (NameError m) = m"
| "exc_str (OSError m) = m"
| "exc_str (OtherException m) = m"

fun is_Timeout :: "py_exc \<Rightarrow> bool" where
  "is_Timeout (Timeout m) = True"
| "is_Timeout e = False"

fun is_RequestException :: "py_exc \<Rightarrow> bool" where
  "is_RequestException (Timeout m) = True"
| "is_RequestException (RequestException m) = True"
| "is_RequestException (RequestsJSONDecodeError m) = True"
| "is_RequestException e = False"

fun is_JSONDecodeError :: "py_exc \<Rightarrow> bool" where
  "is_JSONDecodeError (RequestsJSONDecodeError m) = True"
| "is_JSONDecodeError (JSONDecodeError m) = True"
| "is_JSONDecodeError e = False"

subsection \<open>Dictionaries\<close>

text \<open>\<^verbatim>\<open>d.get(k)\<close>, \<^verbatim>\<open>k in d\<close> and \<^verbatim>\<open>d[k] = v\<close> on a dictionary: an
  assignment to a key that is present keeps its place, a new key goes last.\<close>

definition dict_get :: "dict \<Rightarrow> string \<Rightarrow> json option" where
  "dict_get d k = map_of d k"

definition dict_keys :: "dict \<Rightarrow> string list" where
  "dict_keys d = map fst d"

definition dict_has :: "dict \<Rightarrow> string \<Rightarrow> bool" where
  "dict_has d k = (k \<in> set (dict_keys d))"

fun dict_set :: "dict \<Rightarrow> string \<Rightarrow> json \<Rightarrow> dict" where
  "dict_set [] k v = [(k, v)]"
| "dict_set ((k', v') # d) k v =
     (if k' = k then (k, v) # d else (k', v') # dict_set d k v)"

subsection \<open>Text\<close>

text \<open>\<^verbatim>\<open>str.isspace\<close> on the ASCII range: tab to carriage return, the four
  separators \<^verbatim>\<open>0x1c\<close> to \<^verbatim>\<open>0x1f\<close>, and the space.\<close>

definition py_isspace :: "char \<Rightarrow> bool" where
  "py_isspace c =
     (let n = of_char c :: nat in (9 \<le> n \<and> n \<le> 13) \<or> (28 \<le> n \<and> n \<le> 32))"

definition py_strip :: "string \<Rightarrow> string" where
  "py_strip s = rev (dropWhile py_isspace (rev (dropWhile py_isspace s)))"

fun startswith :: "string \<Rightarrow> string \<Rightarrow> bool" where
  "startswith s [] = True"
| "startswith [] (p # ps) = False"
| "startswith (c # cs) (p # ps) = (c = p \<and> startswith cs ps)"

definition endswith :: "string \<Rightarrow> string \<Rightarrow> bool" where
  "endswith s p = startswith (rev s) (rev p)"

text \<open>\<^verbatim>\<open>needle in hay\<close> on two strings: the substring test.\<close>

fun str_contains :: "string \<Rightarrow> string \<Rightarrow> bool" where
  "str_contains [] needle = (needle = [])"
| "str_contains (c # cs) needle =
     (startswith (c # cs) needle \<or> str_contains cs needle)"

text \<open>\<^verbatim>\<open>str.lower\<close> on the ASCII range.\<close>

definition lower_char :: "char \<Rightarrow> char" where
  "lower_char c =
     (let n = of_char c :: nat in if 65 \<le> n \<and> n \<le> 90 then char_of (n + 32) else c)"

definition py_lower :: "string \<Rightarrow> string" where
  "py_lower s = map lower_char s"

text \<open>The decimal digits of a natural number, as \<^verbatim>\<open>str(n)\<close> writes them.\<close>

fun digit_char :: "nat \<Rightarrow> char" where
  "digit_char n = char_of (48 + n mod 10)"

function str_nat :: "nat \<Rightarrow> string" where
  "str_nat n = (if n < 10 then [digit_char n] else str_nat (n div 10) @ [digit_char n])"
  by pat_completeness auto
termination
  by (relation "measure id") auto

subsection \<open>Membership and subscription\<close>

text \<open>
  \<^verbatim>\<open>key in v\<close> for a string \<^verbatim>\<open>key\<close>: key membership in a dictionary, element
  membership in a list (a string equals only a string), the substring test in a
  string, and a \<^verbatim>\<open>TypeError\<close> on everything else.  The interpreter's
  messages are written without their quotation marks.
\<close>

fun py_in :: "string \<Rightarrow> json \<Rightarrow> py_exc + bool" where
  "py_in k (JObj kvs) = Inr (k \<in> set (map fst kvs))"
| "py_in k (JList xs) = Inr (JStr k \<in> set xs)"
| "py_in k (JStr s) = Inr (str_contains s k)"
| "py_in k JNull = Inl (TypeError ''argument of type NoneType is not iterable'')"
| "py_in k (JBool b) = Inl (TypeError ''argument of type bool is not iterable'')"
| "py_in k (JInt i) = Inl (TypeError ''argument of type int is not iterable'')"
| "py_in k (JFloat f) = Inl (TypeError ''argument of type float is not iterable'')"

text \<open>\<^verbatim>\<open>v[key]\<close> for a string \<^verbatim>\<open>key\<close>: only a dictionary can answer.\<close>

fun py_getitem :: "json \<Rightarrow> string \<Rightarrow> py_exc + json" where
  "py_getitem (JObj kvs) k =
     (case map_of kvs k of None \<Rightarrow> Inl (KeyError k) | Some v \<Rightarrow> Inr v)"
| "py_getitem (JList xs) k =
     Inl (TypeError ''list indices must be integers or slices, not str'')"
| "py_getitem (JStr s) k = Inl (TypeError ''string indices must be integers, not str'')"
| "py_getitem JNull k = Inl (TypeError ''NoneType object is not subscriptable'')"
| "py_getitem (JBool b) k = Inl (TypeError ''bool object is not subscriptable'')"
| "py_getitem (JInt i) k = Inl (TypeError ''int object is not subscriptable'')"
| "py_getitem (JFloat f) k = Inl (TypeError ''float object is not subscriptable'')"

fun is_str :: "json \<Rightarrow> bool" where
  "is_str (JStr s) = True"
| "is_str v = False"

fun is_bool :: "json \<Rightarrow> bool" where
  "is_bool (JBool b) = True"
| "is_bool v = False"

fun is_dict :: "json \<Rightarrow> bool" where
  "is_dict (JObj kvs) = True"
| "is_dict v = False"

fun is_list :: "json \<Rightarrow> bool" where
  "is_list (JList xs) = True"
| "is_list v = False"

text \<open>\<^verbatim>\<open>d.get(k)\<close> read as a Python value: \<^verbatim>\<open>None\<close> for a missing key.\<close>

definition dict_get_py :: "dict \<Rightarrow> string \<Rightarrow> json" where
  "dict_get_py d k = (case dict_get d k of None \<Rightarrow> JNull | Some v \<Rightarrow> v)"

text \<open>Sequencing of a computation that may raise.\<close>

fun bind_exc :: "py_exc + 'a \<Rightarrow> ('a \<Rightarrow> py_exc + 'b) \<Rightarrow> py_exc + 'b" where
  "bind_exc (Inl e) f = Inl e"
| "bind_exc (Inr x) f = f x"

section \<open>The extraction engine (\<^verbatim>\<open>llm_utils.py\<close>)\<close>

subsection \<open>The schema and the default record\<close>

text \<open>
  \<^verbatim>\<open>JSON_SCHEMA_DICT["properties"]\<close>: the property names in the order of the
  source, each with its \<^verbatim>\<open>"type"\<close> entry, which is one type name or a list of
  them.  The descriptions only feed the prompt and are left out.
\<close>

datatype schema_type = TSingle string | TUnion "string list"

definition schema_properties :: "(string \<times> schema_type) list" where
  "schema_properties =
    [(''circular_id'', TUnion [''string'', ''null'']),
     (''circular_url'', TUnion [''string'', ''null'']),
     (''subject'', TUnion [''string'', ''null'']),
     (''is_trigger_event'', TSingle ''boolean''),
     (''event_time_utc'', TUnion [''string'', ''null'']),
     (''time_since_trigger'', TUnion [''string'', ''null'']),
     (''ra'', TUnion [''string'', ''null'']),
     (''dec'', TUnion [''string'', ''null'']),
     (''magnitude'', TUnion [''string'', ''number'', ''null'']),
     (''magnitude_error'', TUnion [''string'', ''number'', ''null'']),
     (''is_upper_limit'', TSingle ''boolean''),
     (''wavelength_band'', TUnion [''string'', ''null'']),
     (''multiple_bands_reported'', TSingle ''boolean''),
     (''telescope'', TUnion [''string'', ''null'']),
     (''observatory'', TUnion [''string'', ''null'']),
     (''raw_text'', TSingle ''string''),
     (''extraction_successful'', TSingle ''boolean''),
     (''llm_error_message'', TUnion [''string'', ''null''])]"

definition schema_keys :: "string list" where
  "schema_keys = map fst schema_properties"

definition bool_keys :: "string list" where
  "bool_keys = [''is_trigger_event'', ''is_upper_limit'', ''multiple_bands_reported'']"

text \<open>The loop of \<^verbatim>\<open>get_default_extracted_data\<close> over the schema's properties.\<close>

fun default_fill :: "(string \<times> schema_type) list \<Rightarrow> dict \<Rightarrow> dict" where
  "default_fill [] data = data"
| "default_fill ((prop, details) # ps) data =
     (if \<not> dict_has data prop then
        (if details = TSingle ''boolean'' \<and> prop \<in> set bool_keys
         then default_fill ps data
         else default_fill ps (dict_set data prop JNull))
      else default_fill ps data)"

definition get_default_extracted_data :: "json \<Rightarrow> json \<Rightarrow> json \<Rightarrow> json \<Rightarrow> dict" where
  "get_default_extracted_data circular_id circular_url subject raw_text =
     default_fill schema_properties
       [(''circular_id'', circular_id),
        (''circular_url'', circular_url),
        (''subject'', subject),
        (''raw_text'', raw_text),
        (''extraction_successful'', JBool False),
        (''llm_error_message'', JNull),
        (''is_trigger_event'', JBool False),
        (''is_upper_limit'', JBool False),
        (''multiple_bands_reported'', JBool False)]"

subsection \<open>Reading the service's answer\<close>

text \<open>
  Two library functions are parameters of the model: \<open>loads\<close> is
  \<^verbatim>\<open>json.loads\<close> (\<open>Inl\<close> the exception it raises), and \<open>fmt\<close> is the text an
  f-string writes for a value.  The prompt is built from the schema and the
  circular's text before the first request; it is sent to the service and read
  nowhere else, so the model leaves it out.
\<close>

definition meta_keys :: "string list" where
  "meta_keys = [''model'', ''created_at'', ''done'', ''total_duration'', ''load_duration'',
     ''prompt_eval_count'', ''prompt_eval_duration'', ''eval_count'', ''eval_duration'',
     ''context'']"

text \<open>The second parse, after a first \<^verbatim>\<open>JSONDecodeError\<close>: the code fence is cut
  off (\<^verbatim>\<open>[7:]\<close>, \<^verbatim>\<open>[:-3]\<close>) and the rest is parsed again.\<close>

definition strip_fence :: "string \<Rightarrow> string" where
  "strip_fence llm_output_str =
     (let clean0 = py_strip llm_output_str;
          clean1 = (if startswith clean0 ''```json'' then drop 7 clean0 else clean0);
          clean2 = (if endswith clean1 ''```'' then take (length clean1 - 3) clean1 else clean1)
      in py_strip clean2)"

definition parse_wrapped :: "(string \<Rightarrow> py_exc + json) \<Rightarrow> string \<Rightarrow> py_exc + json" where
  "parse_wrapped loads llm_output_str =
     (case loads (py_strip llm_output_str) of
        Inr v \<Rightarrow> Inr v
      | Inl e \<Rightarrow>
          if is_JSONDecodeError e then loads (strip_fence llm_output_str) else Inl e)"

text \<open>\<^verbatim>\<open>"response" in x and isinstance(x["response"], T)\<close>, with the short cut of
  \<^verbatim>\<open>and\<close>.\<close>

definition response_is :: "(json \<Rightarrow> bool) \<Rightarrow> json \<Rightarrow> py_exc + bool" where
  "response_is T x =
     bind_exc (py_in ''response'' x) (\<lambda>present.
       if present then bind_exc (py_getitem x ''response'') (\<lambda>r. Inr (T r)) else Inr False)"

fun loads_value :: "(string \<Rightarrow> py_exc + json) \<Rightarrow> json \<Rightarrow> py_exc + json" where
  "loads_value loads (JStr s) = loads s"
| "loads_value loads v = Inl (TypeError ''the JSON object must be str, bytes or bytearray'')"

fun wrapped_value :: "(string \<Rightarrow> py_exc + json) \<Rightarrow> json \<Rightarrow> py_exc + json" where
  "wrapped_value loads (JStr s) = parse_wrapped loads s"
| "wrapped_value loads v = Inl (TypeError ''object has no attribute strip'')"

fun dict_items :: "json \<Rightarrow> (string \<times> json) list" where
  "dict_items (JObj kvs) = kvs"
| "dict_items v = []"

text \<open>Lines 152 to 174: from \<^verbatim>\<open>api_response_json\<close> to \<^verbatim>\<open>parsed_llm_json\<close>.\<close>

definition parse_api_response ::
  "(string \<Rightarrow> py_exc + json) \<Rightarrow> (json \<Rightarrow> string) \<Rightarrow> json \<Rightarrow> json \<Rightarrow> py_exc + json" where
  "parse_api_response loads fmt circular_id api_response_json =
     bind_exc (response_is is_str api_response_json) (\<lambda>wrapped.
       if wrapped then
         bind_exc (py_getitem api_response_json ''response'') (wrapped_value loads)
       else
         bind_exc (if is_dict api_response_json then py_in ''model'' api_response_json
                   else Inr False) (\<lambda>structured.
           if structured then
             bind_exc (response_is (\<lambda>r. is_dict r \<or> is_list r) api_response_json) (\<lambda>direct.
               if direct then py_getitem api_response_json ''response''
               else
                 bind_exc (response_is is_str api_response_json) (\<lambda>text_again.
                   if text_again then
                     bind_exc (py_getitem api_response_json ''response'') (loads_value loads)
                   else
                     (let temp_json =
                        filter (\<lambda>(k, v). k \<notin> set meta_keys) (dict_items api_response_json)
                      in if temp_json \<noteq> [] then Inr (JObj temp_json)
                         else Inl (ValueError
                           (''Unexpected LLM API response (format=json, no clear data) for '' @
                            fmt circular_id @ '': '' @ fmt api_response_json)))))
           else Inl (ValueError
             (''Unexpected LLM API response structure for '' @
              fmt circular_id @ '': '' @ fmt api_response_json))))"

subsection \<open>Merging the payload into the record\<close>

definition protected_keys :: "string list" where
  "protected_keys = [''circular_id'', ''circular_url'', ''subject'', ''raw_text'',
     ''extraction_successful'', ''llm_error_message'']"

text \<open>Lines 176 to 178.  The record is changed in place, so an exception leaves
  what was merged before it: the record is returned beside the exception.\<close>

fun merge_keys :: "string list \<Rightarrow> json \<Rightarrow> dict \<Rightarrow> py_exc option \<times> dict" where
  "merge_keys [] parsed_llm_json d = (None, d)"
| "merge_keys (key # keys) parsed_llm_json d =
     (case py_in key parsed_llm_json of
        Inl e \<Rightarrow> (Some e, d)
      | Inr present \<Rightarrow>
          if present \<and> key \<notin> set protected_keys then
            (case py_getitem parsed_llm_json key of
               Inl e \<Rightarrow> (Some e, d)
             | Inr v \<Rightarrow> merge_keys keys parsed_llm_json (dict_set d key v))
          else merge_keys keys parsed_llm_json d)"

text \<open>Lines 181 to 185: the three boolean fields are made booleans.\<close>

fun lower_is_true :: "json \<Rightarrow> bool" where
  "lower_is_true (JStr s) = (py_lower s = ''true'')"
| "lower_is_true v = False"

fun coerce_bools :: "string list \<Rightarrow> dict \<Rightarrow> dict" where
  "coerce_bools [] d = d"
| "coerce_bools (bool_key # ks) d =
     (if is_str (dict_get_py d bool_key) then
        coerce_bools ks (dict_set d bool_key (JBool (lower_is_true (dict_get_py d bool_key))))
      else if \<not> is_bool (dict_get_py d bool_key) then
        coerce_bools ks (dict_set d bool_key (JBool False))
      else coerce_bools ks d)"

text \<open>Lines 176 to 187: what a parsed payload does to the record.\<close>

definition apply_parsed :: "json \<Rightarrow> dict \<Rightarrow> py_exc option \<times> dict" where
  "apply_parsed parsed_llm_json d =
     (case merge_keys schema_keys parsed_llm_json d of
        (Some e, d') \<Rightarrow> (Some e, d')
      | (None, d') \<Rightarrow>
          (None, dict_set (coerce_bools bool_keys d') ''extraction_successful'' (JBool True)))"

subsection \<open>One attempt and the retry loop\<close>

text \<open>
  What the inference service does at one attempt: \<^verbatim>\<open>requests.post\<close> raises;
  or it returns a response (with its text) and \<^verbatim>\<open>raise_for_status\<close> raises; or
  \<^verbatim>\<open>response.json()\<close> raises; or \<^verbatim>\<open>response.json()\<close> returns a value.
\<close>

datatype attempt_outcome =
    PostRaises py_exc
  | StatusRaises py_exc string
  | JsonRaises py_exc string
  | Responds json string

text \<open>
  The state of the function across attempts: the record, the local variable
  \<^verbatim>\<open>response\<close> (its text and its truth value, unset before the first response),
  the seconds slept so far and the number of requests posted.
\<close>

record llm_state =
  extracted_data :: dict
  response :: "(string \<times> bool) option"
  slept :: "int list"
  posts :: nat

text \<open>The body of the \<^verbatim>\<open>try\<close>: \<open>None\<close> when it reaches \<^verbatim>\<open>return\<close>, else
  the exception raised.\<close>

definition try_body ::
  "(string \<Rightarrow> py_exc + json) \<Rightarrow> (json \<Rightarrow> string) \<Rightarrow> json \<Rightarrow> attempt_outcome \<Rightarrow>
   llm_state \<Rightarrow> py_exc option \<times> llm_state" where
  "try_body loads fmt circular_id outcome st0 =
     (let st = st0\<lparr>posts := posts st0 + 1\<rparr> in
      case outcome of
        PostRaises e \<Rightarrow> (Some e, st)
      | StatusRaises e t \<Rightarrow> (Some e, st\<lparr>response := Some (t, False)\<rparr>)
      | JsonRaises e t \<Rightarrow> (Some e, st\<lparr>response := Some (t, True)\<rparr>)
      | Responds api_response_json t \<Rightarrow>
          (let st1 = st\<lparr>response := Some (t, True)\<rparr> in
           case parse_api_response loads fmt circular_id api_response_json of
             Inl e \<Rightarrow> (Some e, st1)
           | Inr parsed_llm_json \<Rightarrow>
               (case apply_parsed parsed_llm_json (extracted_data st1) of
                  (r, d) \<Rightarrow> (r, st1\<lparr>extracted_data := d\<rparr>))))"

text \<open>The four \<^verbatim>\<open>except\<close> clauses, in the order of the source.\<close>

definition resp_text :: "llm_state \<Rightarrow> string" where
  "resp_text st =
     (case response st of
        Some (t, True) \<Rightarrow> t
      | _ \<Rightarrow> ''No response text available'')"

definition error_message :: "py_exc \<Rightarrow> nat \<Rightarrow> llm_state \<Rightarrow> string" where
  "error_message e attempt st =
     (if is_Timeout e then
        ''API Request Timeout (attempt '' @ str_nat (attempt + 1) @ '')''
      else if is_RequestException e then ''API Request Error: '' @ exc_str e
      else if is_JSONDecodeError e then
        ''JSON Decode Error: '' @ exc_str e @ ''. Raw LLM output: '' @ take 200 (resp_text st)
      else ''Unexpected Error: '' @ exc_str e)"

definition handle_exc :: "py_exc \<Rightarrow> nat \<Rightarrow> llm_state \<Rightarrow> llm_state" where
  "handle_exc e attempt st =
     st\<lparr>extracted_data :=
          dict_set (extracted_data st) ''llm_error_message'' (JStr (error_message e attempt st))\<rparr>"

text \<open>Lines 205 to 208: the pause before the next attempt.\<close>

definition backoff :: "int \<Rightarrow> nat \<Rightarrow> llm_state \<Rightarrow> llm_state" where
  "backoff max_retries attempt st =
     (if int attempt < max_retries - 1
      then st\<lparr>slept := slept st @ [5 * (int attempt + 1)]\<rparr>
      else st)"

text \<open>The \<^verbatim>\<open>for\<close> loop over \<^verbatim>\<open>range(MAX_RETRIES_LLM)\<close>; \<open>service\<close> gives the
  outcome of each attempt.\<close>

fun llm_loop ::
  "(string \<Rightarrow> py_exc + json) \<Rightarrow> (json \<Rightarrow> string) \<Rightarrow> int \<Rightarrow> (nat \<Rightarrow> attempt_outcome) \<Rightarrow>
   json \<Rightarrow> nat list \<Rightarrow> llm_state \<Rightarrow> llm_state" where
  "llm_loop loads fmt max_retries service circular_id [] st = st"
| "llm_loop loads fmt max_retries service circular_id (attempt # rest) st =
     (case try_body loads fmt circular_id (service attempt) st of
        (None, st') \<Rightarrow> st'
      | (Some e, st') \<Rightarrow>
          llm_loop loads fmt max_retries service circular_id rest
            (backoff max_retries attempt (handle_exc e attempt st')))"

definition extract_info_with_llm ::
  "(string \<Rightarrow> py_exc + json) \<Rightarrow> (json \<Rightarrow> string) \<Rightarrow> int \<Rightarrow> (nat \<Rightarrow> attempt_outcome) \<Rightarrow>
   json \<Rightarrow> json \<Rightarrow> json \<Rightarrow> json \<Rightarrow> llm_state" where
  "extract_info_with_llm loads fmt max_retries service circular_text circular_id circular_url subject =
     llm_loop loads fmt max_retries service circular_id [0..<nat max_retries]
       \<lparr>extracted_data =
          get_default_extracted_data circular_id circular_url subject circular_text,
        response = None, slept = [], posts = 0\<rparr>"

text \<open>
  Whether an attempt returns does not depend on the state it starts from: the
  exception an outcome leads to (\<open>None\<close> when the attempt returns) and the payload
  it parses to are read off a fixed state.
\<close>

definition init_state :: llm_state where
  "init_state = \<lparr>extracted_data = [], response = None, slept = [], posts = 0\<rparr>"

definition attempt_exc ::
  "(string \<Rightarrow> py_exc + json) \<Rightarrow> (json \<Rightarrow> string) \<Rightarrow> json \<Rightarrow> attempt_outcome \<Rightarrow>
   py_exc option" where
  "attempt_exc loads fmt circular_id outcome =
     fst (try_body loads fmt circular_id outcome init_state)"

definition attempt_parsed ::
  "(string \<Rightarrow> py_exc + json) \<Rightarrow> (json \<Rightarrow> string) \<Rightarrow> json \<Rightarrow> attempt_outcome \<Rightarrow>
   json option" where
  "attempt_parsed loads fmt circular_id outcome =
     (case outcome of
        Responds api_response_json t \<Rightarrow>
          (case parse_api_response loads fmt circular_id api_response_json of
             Inl e \<Rightarrow> None
           | Inr parsed_llm_json \<Rightarrow> Some parsed_llm_json)
      | _ \<Rightarrow> None)"

text \<open>
  The coercion of a boolean field as the specification words it: a boolean stays, a
  string is true when its lower case is \<^verbatim>\<open>true\<close>, everything else (a missing value
  too) is false.
\<close>

fun spec_bool :: "json option \<Rightarrow> bool" where
  "spec_bool (Some (JBool b)) = b"
| "spec_bool (Some (JStr s)) = (py_lower s = ''true'')"
| "spec_bool v = False"

section \<open>The text retriever (\<^verbatim>\<open>gcn_utils.py\<close>)\<close>

text \<open>
  \<^verbatim>\<open>get_circular_text_robust\<close> reads two sources: the circular's page and the
  \<^verbatim>\<open>.gcn3\<close> file.  What each fetch returns (\<open>None\<close> for Python's \<^verbatim>\<open>None\<close>) is an
  argument of the model; the result is paired with whether the \<^verbatim>\<open>.gcn3\<close> file
  was fetched.  A character of a \<^typ>\<open>string\<close> stands for a character of the
  Python text, so \<^const>\<open>length\<close> is \<^verbatim>\<open>len\<close>.
\<close>

definition is_placeholder :: "string \<Rightarrow> bool" where
  "is_placeholder raw_text =
     (startswith (py_strip raw_text) ''The GCN Circular system is evolving.'' \<or>
      startswith (py_strip raw_text) ''This GCN Circular is currently unavailable.'')"

text \<open>The truth value of a text that may be \<^verbatim>\<open>None\<close>, and \<^verbatim>\<open>raw_text or ""\<close>.\<close>

fun text_truthy :: "string option \<Rightarrow> bool" where
  "text_truthy None = False"
| "text_truthy (Some t) = (t \<noteq> [])"

fun text_or_empty :: "string option \<Rightarrow> string" where
  "text_or_empty None = []"
| "text_or_empty (Some t) = t"

text \<open>Lines 140 to 144: a page text of more than 50 characters that starts with a
  placeholder is dropped.\<close>

definition discard_placeholder :: "string option \<Rightarrow> string option" where
  "discard_placeholder raw_text =
     (if text_truthy raw_text \<and> length (text_or_empty raw_text) > 50 then
        (if is_placeholder (text_or_empty raw_text) then None else raw_text)
      else raw_text)"

definition get_circular_text_robust ::
  "string option \<Rightarrow> string option \<Rightarrow> string option \<times> bool" where
  "get_circular_text_robust page_text raw_text_gcn3 =
     (let raw_text = discard_placeholder page_text in
      if \<not> text_truthy raw_text \<or> length (text_or_empty raw_text) < 50 then
        (if text_truthy raw_text_gcn3 \<and>
            length (text_or_empty raw_text_gcn3) > length (text_or_empty raw_text)
         then (raw_text_gcn3, True)
         else if text_truthy raw_text then (raw_text, True)
         else (None, True))
      else (raw_text, False))"

section \<open>The stores (\<^verbatim>\<open>data_manager.py\<close>)\<close>

text \<open>
  The disk is a map from paths to the text of the files, and a set of directories.
  The operating system may refuse a call; which kinds of call it refuses is a
  parameter \<open>fails\<close> of each store function.
\<close>

record disk =
  files :: "string \<rightharpoonup> string"
  dirs :: "string set"

datatype io_op =
  OpMakedirs | OpOpenRead | OpOpenWrite | OpOpenAppend | OpReplace | OpRename | OpRemove

definition path_exists :: "disk \<Rightarrow> string \<Rightarrow> bool" where
  "path_exists d p = (files d p \<noteq> None \<or> p \<in> dirs d)"

text \<open>\<^verbatim>\<open>os.path.dirname\<close> of a POSIX path.\<close>

definition dirname :: "string \<Rightarrow> string" where
  "dirname p =
     (let head = rev (dropWhile (\<lambda>c. c \<noteq> CHR ''/'') (rev p)) in
      if head \<noteq> [] \<and> head \<noteq> replicate (length head) CHR ''/''
      then rev (dropWhile (\<lambda>c. c = CHR ''/'') (rev head))
      else head)"

text \<open>
  The names bound in the module \<^verbatim>\<open>data_manager\<close>: its three imports, the two
  names imported from \<^verbatim>\<open>config\<close>, the logger and the four functions.  Reading
  any other global name that is not a builtin raises \<^verbatim>\<open>NameError\<close>.
\<close>

definition data_manager_names :: "string list" where
  "data_manager_names = [''os'', ''json'', ''logging'', ''PROCESSED_CIRCULARS_FILE'',
     ''OUTPUT_JSON_FILE'', ''logger'', ''load_processed_ids'', ''save_processed_id'',
     ''load_output_data'', ''save_output_data'']"

definition global_name :: "string \<Rightarrow> py_exc + unit" where
  "global_name n =
     (if n \<in> set data_manager_names then Inr ()
      else Inl (NameError (''name '' @ n @ '' is not defined'')))"

text \<open>The lines of a text file read in text mode: \<^verbatim>\<open>\r\n\<close> and \<^verbatim>\<open>\r\<close> end a
  line as \<^verbatim>\<open>\n\<close> does.\<close>

fun split_lines :: "string \<Rightarrow> string \<Rightarrow> string list" where
  "split_lines cur [] = (if cur = [] then [] else [cur])"
| "split_lines cur (c # cs) =
     (if c = CHR 0x0A then cur # split_lines [] cs
      else if c = CHR 0x0D then
        (case cs of
           c' # cs' \<Rightarrow> if c' = CHR 0x0A then cur # split_lines [] cs' else cur # split_lines [] cs
         | [] \<Rightarrow> [cur])
      else split_lines (cur @ [c]) cs)"

definition load_processed_ids :: "(io_op \<Rightarrow> bool) \<Rightarrow> string \<Rightarrow> disk \<Rightarrow> string set" where
  "load_processed_ids fails ledger_file d =
     (if \<not> path_exists d ledger_file then {}
      else if fails OpOpenRead then {}
      else (case files d ledger_file of
              None \<Rightarrow> {}
            | Some content \<Rightarrow>
                set (map py_strip (filter (\<lambda>line. py_strip line \<noteq> []) (split_lines [] content)))))"

text \<open>\<^verbatim>\<open>os.makedirs(dir, exist_ok=True)\<close> behind its guard; the directory itself
  is recorded, its parents are not.\<close>

definition ensure_dir :: "(io_op \<Rightarrow> bool) \<Rightarrow> string \<Rightarrow> disk \<Rightarrow> py_exc + disk" where
  "ensure_dir fails path d =
     (let dir = dirname path in
      if dir \<noteq> [] \<and> \<not> path_exists d dir then
        (if fails OpMakedirs then Inl (OSError ''makedirs'')
         else Inr (d\<lparr>dirs := insert dir (dirs d)\<rparr>))
      else Inr d)"

definition save_processed_id :: "(io_op \<Rightarrow> bool) \<Rightarrow> string \<Rightarrow> string \<Rightarrow> disk \<Rightarrow> disk" where
  "save_processed_id fails ledger_file circular_id d =
     (case ensure_dir fails ledger_file d of
        Inl e \<Rightarrow> d
      | Inr d1 \<Rightarrow>
          if fails OpOpenAppend then d1
          else d1\<lparr>files := (files d1)(ledger_file \<mapsto>
                 text_or_empty (files d1 ledger_file) @ circular_id @ [CHR 0x0A])\<rparr>)"

text \<open>
  \<^verbatim>\<open>load_output_data\<close>.  \<open>loads\<close> is \<^verbatim>\<open>json.loads\<close> and \<open>now\<close> is the text
  \<^verbatim>\<open>time.strftime("%Y%m%d%H%M%S")\<close> would give.  The handler of
  \<^verbatim>\<open>json.JSONDecodeError\<close> reads the global name \<^verbatim>\<open>time\<close> first; an exception
  raised inside a handler is not caught by the clauses beside it, so it leaves the
  function (\<open>Inl\<close>).
\<close>

definition load_output_data ::
  "(string \<Rightarrow> py_exc + json) \<Rightarrow> string \<Rightarrow> (io_op \<Rightarrow> bool) \<Rightarrow> string \<Rightarrow> disk \<Rightarrow>
   (py_exc + json) \<times> disk" where
  "load_output_data loads now fails output_file d =
     (if path_exists d output_file then
        (if fails OpOpenRead then (Inr (JList []), d)
         else case files d output_file of
           None \<Rightarrow> (Inr (JList []), d)
         | Some content \<Rightarrow>
             if py_strip content = [] then (Inr (JList []), d)
             else (case loads content of
                 Inr v \<Rightarrow> (Inr v, d)
               | Inl e \<Rightarrow>
                   if is_JSONDecodeError e then
                     (case global_name ''time'' of
                        Inl name_error \<Rightarrow> (Inl name_error, d)
                      | Inr u \<Rightarrow>
                          (let backup_file = output_file @ ''.bak.'' @ now in
                           if fails OpRename then (Inr (JList []), d)
                           else (Inr (JList []),
                                 d\<lparr>files := (files d)(backup_file \<mapsto> content,
                                                        output_file := None)\<rparr>)))
                   else (Inr (JList []), d)))
      else (Inr (JList []), d))"

text \<open>
  \<^verbatim>\<open>save_output_data\<close>.  \<open>dumps\<close> is the text \<^verbatim>\<open>json.dump\<close> writes, or the
  exception it raises with what was written before it.  The handler reads
  \<^verbatim>\<open>temp_file\<close>, which is unbound when \<^verbatim>\<open>os.makedirs\<close> was what failed: that
  \<^verbatim>\<open>NameError\<close> leaves the function (\<open>Some\<close>).
\<close>

definition remove_temp :: "(io_op \<Rightarrow> bool) \<Rightarrow> string \<Rightarrow> disk \<Rightarrow> disk" where
  "remove_temp fails temp_file d =
     (if path_exists d temp_file then
        (if fails OpRemove \<or> files d temp_file = None then d
         else d\<lparr>files := (files d)(temp_file := None)\<rparr>)
      else d)"

definition save_output_data ::
  "(json \<Rightarrow> (py_exc \<times> string) + string) \<Rightarrow> (io_op \<Rightarrow> bool) \<Rightarrow> string \<Rightarrow> json \<Rightarrow> disk \<Rightarrow>
   py_exc option \<times> disk" where
  "save_output_data dumps fails output_file data_list d =
     (case ensure_dir fails output_file d of
        Inl e \<Rightarrow>
          (Some (NameError
             ''cannot access local variable temp_file where it is not associated with a value''),
           d)
      | Inr d1 \<Rightarrow>
          (let temp_file = output_file @ ''.tmp'' in
           if fails OpOpenWrite then (None, remove_temp fails temp_file d1)
           else (case dumps data_list of
               Inl (e, partial) \<Rightarrow>
                 (None, remove_temp fails temp_file
                          (d1\<lparr>files := (files d1)(temp_file \<mapsto> partial)\<rparr>))
             | Inr written \<Rightarrow>
                 (let d2 = d1\<lparr>files := (files d1)(temp_file \<mapsto> written)\<rparr> in
                  if fails OpReplace then (None, remove_temp fails temp_file d2)
                  else (None, d2\<lparr>files := (files d2)(output_file \<mapsto> written,
                                                       temp_file := None)\<rparr>)))))"

section \<open>The polling loop (\<^verbatim>\<open>main.py\<close>)\<close>

subsection \<open>Configuration and the outside world\<close>

text \<open>
  \<^verbatim>\<open>config.py\<close> is not among the sources, so its constants are fields of a
  record, next to the library functions and the refusals of the operating system.
\<close>

record env =
  json_loads :: "string \<Rightarrow> py_exc + json"
  json_dumps :: "json \<Rightarrow> (py_exc \<times> string) + string"
  py_format :: "json \<Rightarrow> string"
  io_fails :: "io_op \<Rightarrow> bool"
  MAX_RETRIES_LLM :: int
  CHECK_INTERVAL_SECONDS :: int
  PROCESSED_CIRCULARS_FILE :: string
  OUTPUT_JSON_FILE :: string

text \<open>A reference of the list page: the dictionary with the keys \<^verbatim>\<open>id\<close>,
  \<^verbatim>\<open>url\<close> and \<^verbatim>\<open>subject\<close> (\<open>None\<close> when the key is missing).\<close>

record circ_info =
  circ_id :: string
  circ_url :: string
  circ_subject :: "json option"

text \<open>What the network answers while one reference is processed: the text of the
  page, the text of the \<^verbatim>\<open>.gcn3\<close> file, and the inference service.\<close>

record item_world =
  w_page :: "string option"
  w_gcn3 :: "string option"
  w_service :: "nat \<Rightarrow> attempt_outcome"

text \<open>
  The state of the loop: the ledger in memory, the list of records, the disk, and
  a log of what was done (the records notified, the identifiers given to the text
  retriever and to the extraction engine, the seconds slept), with the two
  counters of the cycle.  The notification is a collaborator outside the loop: the
  model logs the record it is given.
\<close>

record poll_state =
  processed_ids :: "string set"
  all_extracted_data :: "json list"
  on_disk :: disk
  notified :: "dict list"
  retrieved :: "string list"
  extracted :: "string list"
  pauses :: "int list"
  new_circulars_processed_this_cycle :: nat
  skipped_due_to_id_count :: nat

subsection \<open>\<^verbatim>\<open>int(s)\<close> on a string\<close>

text \<open>White space around the number, one sign, decimal digits, and single
  underscores between digits; anything else is a \<^verbatim>\<open>ValueError\<close> (\<open>None\<close>).\<close>

definition is_digit :: "char \<Rightarrow> bool" where
  "is_digit c = (let n = of_char c :: nat in 48 \<le> n \<and> n \<le> 57)"

definition digit_val :: "char \<Rightarrow> nat" where
  "digit_val c = of_char c - 48"

fun digits_acc :: "nat \<Rightarrow> string \<Rightarrow> nat option" where
  "digits_acc acc [] = Some acc"
| "digits_acc acc (c # cs) =
     (if c = CHR ''_'' then
        (case cs of
           [] \<Rightarrow> None
         | c' # cs' \<Rightarrow> if is_digit c' then digits_acc acc cs else None)
      else if is_digit c then digits_acc (10 * acc + digit_val c) cs
      else None)"

definition unsigned_int :: "string \<Rightarrow> nat option" where
  "unsigned_int s =
     (case s of
        [] \<Rightarrow> None
      | c # cs \<Rightarrow> if is_digit c then digits_acc 0 s else None)"

definition py_int :: "string \<Rightarrow> int option" where
  "py_int s =
     (case py_strip s of
        [] \<Rightarrow> None
      | c # cs \<Rightarrow>
          if c = CHR ''-'' then map_option (\<lambda>n. - int n) (unsigned_int cs)
          else if c = CHR ''+'' then map_option int (unsigned_int cs)
          else map_option int (unsigned_int (c # cs)))"

subsection \<open>One reference\<close>

definition record_id :: "poll_state \<Rightarrow> env \<Rightarrow> string \<Rightarrow> poll_state" where
  "record_id st e circular_id_str =
     st\<lparr>on_disk := save_processed_id (io_fails e) (PROCESSED_CIRCULARS_FILE e)
                      circular_id_str (on_disk st),
        processed_ids := insert circular_id_str (processed_ids st)\<rparr>"

definition process_single_circular ::
  "env \<Rightarrow> item_world \<Rightarrow> circ_info \<Rightarrow> poll_state \<Rightarrow> poll_state" where
  "process_single_circular e w circ st =
     (let circular_id = circ_id circ;
          circular_url = circ_url circ;
          subject = (case circ_subject circ of
                       None \<Rightarrow> JStr (''Subject for '' @ circular_id)
                     | Some v \<Rightarrow> v);
          raw_text = fst (get_circular_text_robust (w_page w) (w_gcn3 w));
          st1 = st\<lparr>retrieved := retrieved st @ [circular_id]\<rparr>
      in
      if \<not> text_truthy raw_text then
        (let error_entry =
           dict_set
             (dict_set
                (get_default_extracted_data (JStr circular_id) (JStr circular_url) subject
                   (JStr ''COULD NOT RETRIEVE TEXT''))
                ''extraction_successful'' (JBool False))
             ''llm_error_message''
             (JStr ''Failed to retrieve raw text from circular page or .gcn3 file.'')
         in st1\<lparr>all_extracted_data := all_extracted_data st1 @ [JObj error_entry],
                notified := notified st1 @ [error_entry]\<rparr>)
      else
        (let r = extract_info_with_llm (json_loads e) (py_format e) (MAX_RETRIES_LLM e)
                   (w_service w) (JStr (text_or_empty raw_text)) (JStr circular_id)
                   (JStr circular_url) subject;
             extracted_json = extracted_data r
         in st1\<lparr>extracted := extracted st1 @ [circular_id],
                pauses := pauses st1 @ slept r,
                all_extracted_data := all_extracted_data st1 @ [JObj extracted_json],
                notified := notified st1 @ [extracted_json]\<rparr>))"

text \<open>The body of the \<^verbatim>\<open>for\<close> loop, lines 115 to 146.\<close>

definition loop_body ::
  "env \<Rightarrow> int option \<Rightarrow> (circ_info \<Rightarrow> item_world) \<Rightarrow> circ_info \<Rightarrow> poll_state \<Rightarrow> poll_state" where
  "loop_body e skip_before_id_val world circ st =
     (let circular_id_str = circ_id circ in
      case py_int circular_id_str of
        None \<Rightarrow>
          if circular_id_str \<notin> processed_ids st then record_id st e circular_id_str else st
      | Some current_circular_id_int \<Rightarrow>
          if skip_before_id_val \<noteq> None \<and> current_circular_id_int < the skip_before_id_val then
            (if circular_id_str \<notin> processed_ids st then
               (record_id st e circular_id_str)
                 \<lparr>skipped_due_to_id_count := skipped_due_to_id_count st + 1\<rparr>
             else st)
          else if circular_id_str \<in> processed_ids st then st
          else
            (let st1 = st\<lparr>new_circulars_processed_this_cycle :=
                            new_circulars_processed_this_cycle st + 1\<rparr>;
                 st2 = process_single_circular e (world circ) circ st1;
                 st3 = record_id st2 e circular_id_str
             in if new_circulars_processed_this_cycle st3 > 0
                then st3\<lparr>pauses := pauses st3 @ [max 1 (CHECK_INTERVAL_SECONDS e div 1800)]\<rparr>
                else st3))"

fun for_circulars ::
  "env \<Rightarrow> int option \<Rightarrow> (circ_info \<Rightarrow> item_world) \<Rightarrow> circ_info list \<Rightarrow> poll_state \<Rightarrow>
   poll_state" where
  "for_circulars e skip_before_id_val world [] st = st"
| "for_circulars e skip_before_id_val world (circ # rest) st =
     for_circulars e skip_before_id_val world rest (loop_body e skip_before_id_val world circ st)"

subsection \<open>One cycle and the start\<close>

text \<open>
  One turn of \<^verbatim>\<open>while True\<close>.  \<open>circulars_on_page\<close> is what the list page
  parsed to, \<open>None\<close> when the page could not be fetched.  An exception that
  \<^verbatim>\<open>save_output_data\<close> lets through ends the loop (\<open>Inl\<close>).
\<close>

definition poll_cycle ::
  "env \<Rightarrow> int option \<Rightarrow> (circ_info \<Rightarrow> item_world) \<Rightarrow> circ_info list option \<Rightarrow> poll_state \<Rightarrow>
   py_exc + poll_state" where
  "poll_cycle e skip_before_id_val world circulars_on_page st =
     (case circulars_on_page of
        None \<Rightarrow> Inr (st\<lparr>pauses := pauses st @ [CHECK_INTERVAL_SECONDS e]\<rparr>)
      | Some [] \<Rightarrow> Inr (st\<lparr>pauses := pauses st @ [CHECK_INTERVAL_SECONDS e]\<rparr>)
      | Some page \<Rightarrow>
          (let st1 = for_circulars e skip_before_id_val world (rev page)
                       (st\<lparr>new_circulars_processed_this_cycle := 0,
                           skipped_due_to_id_count := 0\<rparr>)
           in if new_circulars_processed_this_cycle st1 > 0 then
                (case save_output_data (json_dumps e) (io_fails e) (OUTPUT_JSON_FILE e)
                        (JList (all_extracted_data st1)) (on_disk st1) of
                   (Some ex, d) \<Rightarrow> Inl ex
                 | (None, d) \<Rightarrow>
                     Inr (st1\<lparr>on_disk := d,
                              pauses := pauses st1 @ [CHECK_INTERVAL_SECONDS e]\<rparr>))
              else Inr (st1\<lparr>pauses := pauses st1 @ [CHECK_INTERVAL_SECONDS e]\<rparr>)))"

text \<open>Lines 74 to 81: the floor, read from \<^verbatim>\<open>SKIP_CIRCULARS_BEFORE_ID\<close>.\<close>

definition skip_floor :: "string option \<Rightarrow> int option" where
  "skip_floor skip_circulars_before_id =
     (case skip_circulars_before_id of None \<Rightarrow> None | Some s \<Rightarrow> py_int s)"

text \<open>
  Lines 83 to 89: the ledger is read, the records are loaded, and the identifier
  of every loaded record joins the ledger.  Nothing here is inside a \<^verbatim>\<open>try\<close>, so
  an exception ends the start (\<open>Inl\<close>).  A result file the monitor wrote holds
  a list; for a loaded value of another shape the source fails later, at the first
  \<^verbatim>\<open>append\<close>, and the model reports that failure here.
\<close>

fun add_loaded_ids :: "(json \<Rightarrow> string) \<Rightarrow> json list \<Rightarrow> string set \<Rightarrow> py_exc + string set" where
  "add_loaded_ids fmt [] ids = Inr ids"
| "add_loaded_ids fmt (item # items) ids =
     bind_exc (py_in ''circular_id'' item) (\<lambda>present.
       if present then
         bind_exc (py_getitem item ''circular_id'') (\<lambda>v.
           if v \<noteq> JNull then add_loaded_ids fmt items (insert (fmt v) ids)
           else add_loaded_ids fmt items ids)
       else add_loaded_ids fmt items ids)"

definition main_loop_start :: "env \<Rightarrow> string \<Rightarrow> disk \<Rightarrow> py_exc + poll_state" where
  "main_loop_start e now d =
     (let ids = load_processed_ids (io_fails e) (PROCESSED_CIRCULARS_FILE e) d in
      case load_output_data (json_loads e) now (io_fails e) (OUTPUT_JSON_FILE e) d of
        (Inl ex, d1) \<Rightarrow> Inl ex
      | (Inr (JList items), d1) \<Rightarrow>
          bind_exc (add_loaded_ids (py_format e) items ids) (\<lambda>ids1.
            Inr \<lparr>processed_ids = ids1,
                 all_extracted_data = items,
                 on_disk = d1,
                 notified = [], retrieved = [], extracted = [], pauses = [],
                 new_circulars_processed_this_cycle = 0,
                 skipped_due_to_id_count = 0\<rparr>)
      | (Inr other, d1) \<Rightarrow> Inl (TypeError ''object has no attribute append''))"

subsection \<open>What a pass is observed by\<close>





section \<open>Facts about the model\<close>

subsection \<open>Dictionaries, merging and coercion\<close>

lemma dict_get_set: "dict_get (dict_set d k v) k' = (if k' = k then Some v else dict_get d k')"
  by (induction d) (auto simp: dict_get_def)

lemma dict_keys_set: "dict_keys (dict_set d k v) = (if k \<in> set (dict_keys d) then dict_keys d else dict_keys d @ [k])"
  by (induction d) (force simp: dict_keys_def)+

lemma merge_obj_fst: "fst (merge_keys ks (JObj kvs) d) = None"
proof (induction ks arbitrary: d)
  case Nil
  show ?case by simp
next
  case (Cons key ks)
  show ?case
  proof (cases "key \<in> fst ` set kvs \<and> key \<notin> set protected_keys")
    case True
    then obtain v where "map_of kvs key = Some v"
      by (meson map_of_eq_None_iff not_Some_eq)
    with True Cons show ?thesis by simp
  next
    case False
    with Cons show ?thesis by auto
  qed
qed

lemma merge_obj_get:
  "dict_get (snd (merge_keys ks (JObj kvs) d)) k =
     (if k \<in> set ks \<and> k \<in> fst ` set kvs \<and> k \<notin> set protected_keys then map_of kvs k else dict_get d k)"
proof (induction ks arbitrary: d)
  case Nil
  show ?case by simp
next
  case (Cons key ks)
  show ?case
  proof (cases "key \<in> fst ` set kvs \<and> key \<notin> set protected_keys")
    case True
    then obtain v where v: "map_of kvs key = Some v"
      by (meson map_of_eq_None_iff not_Some_eq)
    with True Cons show ?thesis by (auto simp: dict_get_set)
  next
    case False
    with Cons show ?thesis by auto
  qed
qed

lemma merge_nonobj: "\<not> is_dict p \<Longrightarrow> snd (merge_keys ks p d) = d"
  by (induction ks arbitrary: d) (cases p; auto split: sum.splits)+

lemma merge_fst_indep: "fst (merge_keys ks p d) = fst (merge_keys ks p d')"
  by (induction ks arbitrary: d d') (auto split: sum.splits)

lemma merge_keys_keys:
  "set ks \<subseteq> set (dict_keys d) \<Longrightarrow> dict_keys (snd (merge_keys ks p d)) = dict_keys d"
  by (induction ks arbitrary: d) (auto split: sum.splits simp: dict_keys_set)

lemma merge_fail_same: "fst (merge_keys ks p d) \<noteq> None \<Longrightarrow> snd (merge_keys ks p d) = d"
  by (cases p) (simp_all add: merge_obj_fst merge_nonobj)


lemma coerce_get_other: "k \<notin> set ks \<Longrightarrow> dict_get (coerce_bools ks d) k = dict_get d k"
  by (induction ks arbitrary: d) (auto simp: dict_get_set)

lemma spec_bool_cases:
  "spec_bool (dict_get d k) =
     (if is_str (dict_get_py d k) then lower_is_true (dict_get_py d k)
      else if \<not> is_bool (dict_get_py d k) then False
      else spec_bool (dict_get d k))"
  by (cases "dict_get d k"; simp add: dict_get_py_def) (rename_tac v; case_tac v; simp)+

lemma coerce_get: "k \<in> set ks \<Longrightarrow> dict_get (coerce_bools ks d) k = Some (JBool (spec_bool (dict_get d k)))"
proof (induction ks arbitrary: d)
  case Nil
  then show ?case by simp
next
  case (Cons a ks)
  show ?case
  proof (cases "k = a")
    case True
    let ?v = "dict_get_py d a"
    have bool: "\<not> is_str ?v \<Longrightarrow> is_bool ?v \<Longrightarrow> dict_get d a = Some (JBool (spec_bool (dict_get d a)))"
      by (cases "dict_get d a"; simp add: dict_get_py_def) (rename_tac v; case_tac v; simp)
    show ?thesis
    proof (cases "k \<in> set ks")
      case True
      with \<open>k = a\<close> Cons.IH show ?thesis
        using bool spec_bool_cases[of d a] by (auto simp: dict_get_set)
    next
      case False
      with \<open>k = a\<close> show ?thesis
        using bool spec_bool_cases[of d a] by (auto simp: dict_get_set coerce_get_other)
    qed
  next
    case False
    with Cons have "k \<in> set ks" by simp
    with False Cons.IH show ?thesis by (auto simp: dict_get_set)
  qed
qed

lemma coerce_keys:
  "set ks \<subseteq> set (dict_keys d) \<Longrightarrow> dict_keys (coerce_bools ks d) = dict_keys d"
  by (induction ks arbitrary: d) (auto simp: dict_keys_set)


lemma apply_parsed_fst: "fst (apply_parsed p d) = fst (merge_keys schema_keys p [])"
  using merge_fst_indep[of schema_keys p d "[]"]
  by (auto simp: apply_parsed_def split: prod.splits option.splits)

lemma apply_parsed_fail: "fst (apply_parsed p d) \<noteq> None \<Longrightarrow> snd (apply_parsed p d) = d"
  using merge_fail_same[of schema_keys p d]
  by (auto simp: apply_parsed_def split: prod.splits option.splits)

lemma apply_parsed_ok:
  "fst (apply_parsed p d) = None \<Longrightarrow>
   snd (apply_parsed p d) =
     dict_set (coerce_bools bool_keys (snd (merge_keys schema_keys p d)))
       ''extraction_successful'' (JBool True)"
  by (auto simp: apply_parsed_def split: prod.splits option.splits)

lemma try_body_fst: "fst (try_body l f c outcome st) = attempt_exc l f c outcome"
  unfolding attempt_exc_def try_body_def init_state_def
  by (cases outcome) (simp_all add: Let_def case_prod_unfold apply_parsed_fst split: sum.splits)

lemma attempt_exc_parsed:
  "attempt_exc l f c outcome = None \<Longrightarrow> \<exists>p. attempt_parsed l f c outcome = Some p"
  unfolding attempt_exc_def try_body_def init_state_def attempt_parsed_def
  by (cases outcome) (simp_all add: Let_def case_prod_unfold split: sum.splits)

lemma try_body_posts: "posts (snd (try_body l f c outcome st)) = posts st + 1"
  unfolding try_body_def
  by (cases outcome) (simp_all add: Let_def case_prod_unfold split: sum.splits)

lemma try_body_slept: "slept (snd (try_body l f c outcome st)) = slept st"
  unfolding try_body_def
  by (cases outcome) (simp_all add: Let_def case_prod_unfold split: sum.splits)

lemma try_body_data_fail:
  "attempt_exc l f c outcome \<noteq> None \<Longrightarrow>
   extracted_data (snd (try_body l f c outcome st)) = extracted_data st"
  unfolding attempt_exc_def try_body_def init_state_def
  by (cases outcome)
     (simp_all add: Let_def case_prod_unfold apply_parsed_fst apply_parsed_fail split: sum.splits)

lemma try_body_data_ok:
  "attempt_exc l f c outcome = None \<Longrightarrow> attempt_parsed l f c outcome = Some p \<Longrightarrow>
   extracted_data (snd (try_body l f c outcome st)) =
     dict_set (coerce_bools bool_keys (snd (merge_keys schema_keys p (extracted_data st))))
       ''extraction_successful'' (JBool True)"
  unfolding attempt_exc_def try_body_def init_state_def attempt_parsed_def
  by (cases outcome)
     (simp_all add: Let_def case_prod_unfold apply_parsed_fst apply_parsed_ok split: sum.splits)

lemma llm_loop_Cons:
  "llm_loop l f m service c (a # as) st =
     (case attempt_exc l f c (service a) of
        None \<Rightarrow> snd (try_body l f c (service a) st)
      | Some e \<Rightarrow> llm_loop l f m service c as
          (backoff m a (handle_exc e a (snd (try_body l f c (service a) st)))))"
  using try_body_fst[of l f c "service a" st]
  by (cases "try_body l f c (service a) st") (auto split: option.splits)


lemma merge_get_protected:
  "k \<in> set protected_keys \<Longrightarrow> dict_get (snd (merge_keys ks p d)) k = dict_get d k"
  by (cases p) (simp_all add: merge_obj_get merge_nonobj)

lemma apply_parsed_frame:
  assumes "k \<in> set protected_keys" and "k \<noteq> ''extraction_successful''"
  shows "dict_get (snd (apply_parsed p d)) k = dict_get d k"
proof (cases "fst (apply_parsed p d)")
  case None
  from assms have "k \<notin> set bool_keys"
    by (auto simp: protected_keys_def bool_keys_def)
  with None assms show ?thesis
    by (simp add: apply_parsed_ok dict_get_set coerce_get_other merge_get_protected)
next
  case (Some e)
  then show ?thesis by (simp add: apply_parsed_fail)
qed

lemma ok_data_frame:
  assumes "k \<in> set protected_keys" and "k \<noteq> ''extraction_successful''"
  shows "dict_get (dict_set (coerce_bools bool_keys (snd (merge_keys schema_keys p d)))
           ''extraction_successful'' (JBool True)) k = dict_get d k"
proof -
  from assms have "k \<notin> set bool_keys"
    by (auto simp: protected_keys_def bool_keys_def)
  with assms show ?thesis
    by (simp add: dict_get_set coerce_get_other merge_get_protected)
qed

lemma step_data:
  "extracted_data (backoff m a (handle_exc e a st)) =
     dict_set (extracted_data st) ''llm_error_message'' (JStr (error_message e a st))"
  by (simp add: backoff_def handle_exc_def)

lemma step_posts: "posts (backoff m a (handle_exc e a st)) = posts st"
  by (simp add: backoff_def handle_exc_def)

lemma step_slept:
  "slept (backoff m a (handle_exc e a st)) =
     slept st @ (if int a < m - 1 then [5 * (int a + 1)] else [])"
  by (simp add: backoff_def handle_exc_def)

lemma loop_fail_posts:
  "\<forall>i\<in>set as. attempt_exc l f c (service i) \<noteq> None \<Longrightarrow>
   posts (llm_loop l f m service c as st) = posts st + length as"
proof (induction as arbitrary: st)
  case Nil
  show ?case by simp
next
  case (Cons a as)
  then obtain e where e: "attempt_exc l f c (service a) = Some e" by auto
  from Cons have "\<forall>i\<in>set as. attempt_exc l f c (service i) \<noteq> None" by simp
  from Cons.IH[OF this] e show ?case
    by (simp add: llm_loop_Cons step_posts try_body_posts del: llm_loop.simps(2))
qed

lemma loop_fail_slept:
  "\<forall>i\<in>set as. attempt_exc l f c (service i) \<noteq> None \<Longrightarrow>
   slept (llm_loop l f m service c as st) =
     slept st @ map (\<lambda>i. 5 * (int i + 1)) (filter (\<lambda>i. int i < m - 1) as)"
proof (induction as arbitrary: st)
  case Nil
  show ?case by simp
next
  case (Cons a as)
  then obtain e where e: "attempt_exc l f c (service a) = Some e" by auto
  from Cons have "\<forall>i\<in>set as. attempt_exc l f c (service i) \<noteq> None" by simp
  from Cons.IH[OF this] e show ?case
    by (simp add: llm_loop_Cons step_slept try_body_slept del: llm_loop.simps(2))
qed

lemma loop_fail_get:
  "\<forall>i\<in>set as. attempt_exc l f c (service i) \<noteq> None \<Longrightarrow> k \<noteq> ''llm_error_message'' \<Longrightarrow>
   dict_get (extracted_data (llm_loop l f m service c as st)) k = dict_get (extracted_data st) k"
proof (induction as arbitrary: st)
  case Nil
  show ?case by simp
next
  case (Cons a as)
  then obtain e where e: "attempt_exc l f c (service a) = Some e" by auto
  from Cons have "\<forall>i\<in>set as. attempt_exc l f c (service i) \<noteq> None" by simp
  from Cons.IH[OF this Cons.prems(2)] e Cons.prems(2) show ?case
    by (simp add: llm_loop_Cons step_data try_body_data_fail dict_get_set del: llm_loop.simps(2))
qed

lemma loop_fail_message:
  "\<forall>i\<in>set as. attempt_exc l f c (service i) \<noteq> None \<Longrightarrow> as \<noteq> [] \<Longrightarrow>
   \<exists>msg. dict_get (extracted_data (llm_loop l f m service c as st)) ''llm_error_message'' =
     Some (JStr msg)"
proof (induction as arbitrary: st)
  case Nil
  then show ?case by simp
next
  case (Cons a as)
  then obtain e where e: "attempt_exc l f c (service a) = Some e" by auto
  from Cons have fails: "\<forall>i\<in>set as. attempt_exc l f c (service i) \<noteq> None" by simp
  show ?case
  proof (cases "as = []")
    case True
    with e show ?thesis
      by (simp add: llm_loop_Cons step_data dict_get_set del: llm_loop.simps(2))
  next
    case False
    from Cons.IH[OF fails False] e show ?thesis
      by (simp add: llm_loop_Cons del: llm_loop.simps(2))
  qed
qed

lemma loop_append:
  "\<forall>i\<in>set pre. attempt_exc l f c (service i) \<noteq> None \<Longrightarrow>
   llm_loop l f m service c (pre @ rest) st =
     llm_loop l f m service c rest (llm_loop l f m service c pre st)"
proof (induction pre arbitrary: st)
  case Nil
  show ?case by simp
next
  case (Cons a as)
  then obtain e where e: "attempt_exc l f c (service a) = Some e" by auto
  from Cons have "\<forall>i\<in>set as. attempt_exc l f c (service i) \<noteq> None" by simp
  from Cons.IH[OF this] e show ?case
    by (simp add: llm_loop_Cons del: llm_loop.simps(2))
qed

lemma loop_first_ok:
  assumes fails: "\<forall>i\<in>set pre. attempt_exc l f c (service i) \<noteq> None"
    and ok: "attempt_exc l f c (service k) = None"
  shows "llm_loop l f m service c (pre @ k # rest) st =
     snd (try_body l f c (service k) (llm_loop l f m service c pre st))"
  using ok by (simp add: loop_append[OF fails] llm_loop_Cons del: llm_loop.simps(2))

lemma filter_less_upt: "filter (\<lambda>i. int i < j) [0..<n] = [0..<min (nat j) n]"
proof (induction n)
  case 0
  show ?case by simp
next
  case (Suc n)
  show ?case
  proof (cases "int n < j")
    case True
    then have "min (nat j) (Suc n) = Suc n" and "min (nat j) n = n" by linarith+
    with Suc True show ?thesis by simp
  next
    case False
    then have "min (nat j) (Suc n) = min (nat j) n" by linarith
    with Suc False show ?thesis by simp
  qed
qed

subsection \<open>The default record and the retry loop\<close>

lemma default_record:
  "get_default_extracted_data circular_id circular_url subject raw_text =
     [(''circular_id'', circular_id), (''circular_url'', circular_url),
      (''subject'', subject), (''raw_text'', raw_text),
      (''extraction_successful'', JBool False), (''llm_error_message'', JNull),
      (''is_trigger_event'', JBool False), (''is_upper_limit'', JBool False),
      (''multiple_bands_reported'', JBool False), (''event_time_utc'', JNull),
      (''time_since_trigger'', JNull), (''ra'', JNull), (''dec'', JNull),
      (''magnitude'', JNull), (''magnitude_error'', JNull),
      (''wavelength_band'', JNull), (''telescope'', JNull), (''observatory'', JNull)]"
  by (simp add: get_default_extracted_data_def schema_properties_def dict_has_def
        dict_keys_def bool_keys_def)

lemma schema_keys_eval:
  "schema_keys = [''circular_id'', ''circular_url'', ''subject'', ''is_trigger_event'',
     ''event_time_utc'', ''time_since_trigger'', ''ra'', ''dec'', ''magnitude'',
     ''magnitude_error'', ''is_upper_limit'', ''wavelength_band'',
     ''multiple_bands_reported'', ''telescope'', ''observatory'', ''raw_text'',
     ''extraction_successful'', ''llm_error_message'']"
  by (simp add: schema_keys_def schema_properties_def)

lemma default_keys_list:
  "dict_keys (get_default_extracted_data a b c d) =
     [''circular_id'', ''circular_url'', ''subject'', ''raw_text'', ''extraction_successful'',
      ''llm_error_message'', ''is_trigger_event'', ''is_upper_limit'',
      ''multiple_bands_reported'', ''event_time_utc'', ''time_since_trigger'', ''ra'', ''dec'',
      ''magnitude'', ''magnitude_error'', ''wavelength_band'', ''telescope'', ''observatory'']"
  by (simp add: default_record dict_keys_def)

lemma schema_sub_default:
  "set schema_keys \<subseteq> set (dict_keys (get_default_extracted_data a b c d))"
  unfolding default_keys_list schema_keys_eval by simp

lemma default_sub_schema:
  "set (dict_keys (get_default_extracted_data a b c d)) \<subseteq> set schema_keys"
  unfolding default_keys_list schema_keys_eval by simp

lemma default_keys_schema:
  "set (dict_keys (get_default_extracted_data a b c d)) = set schema_keys"
  using schema_sub_default default_sub_schema by blast

lemma bool_keys_schema: "set bool_keys \<subseteq> set schema_keys"
  by (simp add: bool_keys_def schema_keys_eval)

lemma loop_keys:
  "set schema_keys \<subseteq> set (dict_keys (extracted_data st)) \<Longrightarrow>
   dict_keys (extracted_data (llm_loop l f m service c as st)) = dict_keys (extracted_data st)"
proof (induction as arbitrary: st)
  case Nil
  show ?case by simp
next
  case (Cons a as)
  have em: "''llm_error_message'' \<in> set schema_keys" and es: "''extraction_successful'' \<in> set schema_keys"
    by (simp_all add: schema_keys_eval)
  show ?case
  proof (cases "attempt_exc l f c (service a)")
    case None
    then obtain p where p: "attempt_parsed l f c (service a) = Some p"
      using attempt_exc_parsed by blast
    from Cons.prems bool_keys_schema
    have "dict_keys (coerce_bools bool_keys (snd (merge_keys schema_keys p (extracted_data st)))) =
          dict_keys (extracted_data st)"
      by (simp add: coerce_keys merge_keys_keys subset_trans)
    with None p es Cons.prems show ?thesis
      by (auto simp add: llm_loop_Cons try_body_data_ok dict_keys_set simp del: llm_loop.simps(2))
  next
    case (Some e)
    let ?st = "backoff m a (handle_exc e a (snd (try_body l f c (service a) st)))"
    from Some em Cons.prems have k: "dict_keys (extracted_data ?st) = dict_keys (extracted_data st)"
      by (auto simp add: step_data try_body_data_fail dict_keys_set)
    with Cons.prems have "set schema_keys \<subseteq> set (dict_keys (extracted_data ?st))" by simp
    from Cons.IH[OF this] k Some show ?thesis
      by (simp add: llm_loop_Cons del: llm_loop.simps(2))
  qed
qed

lemma loop_frame:
  assumes "k \<in> set protected_keys" and "k \<noteq> ''extraction_successful''"
    and "k \<noteq> ''llm_error_message''"
  shows "dict_get (extracted_data (llm_loop l f m service c as st)) k =
         dict_get (extracted_data st) k"
proof (induction as arbitrary: st)
  case Nil
  show ?case by simp
next
  case (Cons a as)
  show ?case
  proof (cases "attempt_exc l f c (service a)")
    case None
    then obtain p where p: "attempt_parsed l f c (service a) = Some p"
      using attempt_exc_parsed by blast
    with None assms show ?thesis
      by (simp add: llm_loop_Cons try_body_data_ok ok_data_frame del: llm_loop.simps(2))
  next
    case (Some e)
    with assms Cons.IH show ?thesis
      by (simp add: llm_loop_Cons step_data try_body_data_fail dict_get_set
            del: llm_loop.simps(2))
  qed
qed

lemma loop_bools:
  assumes "k \<in> set bool_keys"
  shows "\<exists>b. dict_get (extracted_data st) k = Some (JBool b) \<Longrightarrow>
     \<exists>b. dict_get (extracted_data (llm_loop l f m service c as st)) k = Some (JBool b)"
proof (induction as arbitrary: st)
  case Nil
  then show ?case by simp
next
  case (Cons a as)
  from assms have ne: "k \<noteq> ''extraction_successful''" "k \<noteq> ''llm_error_message''"
    by (auto simp: bool_keys_def)
  show ?case
  proof (cases "attempt_exc l f c (service a)")
    case None
    then obtain p where p: "attempt_parsed l f c (service a) = Some p"
      using attempt_exc_parsed by blast
    with None assms ne show ?thesis
      by (simp add: llm_loop_Cons try_body_data_ok dict_get_set coerce_get
            del: llm_loop.simps(2))
  next
    case (Some e)
    let ?st = "backoff m a (handle_exc e a (snd (try_body l f c (service a) st)))"
    from Some ne Cons.prems have "\<exists>b. dict_get (extracted_data ?st) k = Some (JBool b)"
      by (simp add: step_data try_body_data_fail dict_get_set)
    from Cons.IH[OF this] Some show ?thesis
      by (simp add: llm_loop_Cons del: llm_loop.simps(2))
  qed
qed

lemma default_gets:
  "dict_get (get_default_extracted_data a b c d) ''circular_id'' = Some a"
  "dict_get (get_default_extracted_data a b c d) ''circular_url'' = Some b"
  "dict_get (get_default_extracted_data a b c d) ''subject'' = Some c"
  "dict_get (get_default_extracted_data a b c d) ''raw_text'' = Some d"
  "dict_get (get_default_extracted_data a b c d) ''extraction_successful'' = Some (JBool False)"
  "dict_get (get_default_extracted_data a b c d) ''llm_error_message'' = Some JNull"
  "dict_get (get_default_extracted_data a b c d) ''is_trigger_event'' = Some (JBool False)"
  "dict_get (get_default_extracted_data a b c d) ''is_upper_limit'' = Some (JBool False)"
  "dict_get (get_default_extracted_data a b c d) ''multiple_bands_reported'' = Some (JBool False)"
  by (simp_all add: default_record dict_get_def)

lemma upt_split: "k < n \<Longrightarrow> [0..<n] = [0..<k] @ k # [Suc k..<n]"
  by (metis le_add2 le_add_same_cancel2 less_imp_add_positive upt_add_eq_append upt_conv_Cons)

lemma extract_first_ok:
  assumes "k < nat m" and "\<forall>i<k. attempt_exc l f c (service i) \<noteq> None"
    and "attempt_exc l f c (service k) = None"
  shows "extract_info_with_llm l f m service t c u sj =
     snd (try_body l f c (service k)
       (llm_loop l f m service c [0..<k]
          \<lparr>extracted_data = get_default_extracted_data c u sj t,
           response = None, slept = [], posts = 0\<rparr>))"
proof -
  from assms(2) have "\<forall>i\<in>set [0..<k]. attempt_exc l f c (service i) \<noteq> None" by simp
  from loop_first_ok[OF this assms(3)] upt_split[OF assms(1)] show ?thesis
    by (simp add: extract_info_with_llm_def)
qed

section \<open>The extraction engine: retries, booleans, protected fields\<close>

text \<open>
  Claim C3.  \<^verbatim>\<open>extract_info_with_llm\<close> never raises: every exception of an
  attempt is a branch that ends in the handler, and the function returns one record
  for every behaviour of the inference service.  Let \<open>k\<close> be the first attempt
  that returns, or \<^verbatim>\<open>MAX_RETRIES_LLM\<close> when none does.  When an attempt returns,
  no further request is posted (\<open>k + 1\<close> requests in all), the pauses before it were
  \<open>5 * (i + 1)\<close> seconds after attempt \<open>i\<close>, and the record is marked successful.
  When all \<^verbatim>\<open>MAX_RETRIES_LLM\<close> attempts fail, exactly that many requests were
  posted, with a pause of \<open>5 * (i + 1)\<close> seconds between attempt \<open>i\<close> and the next
  and none after the last, and the record has \<^verbatim>\<open>extraction_successful\<close> false
  and, as soon as one attempt was made, a message in \<^verbatim>\<open>llm_error_message\<close>.
\<close>

theorem retry_policy:
  assumes "k \<le> nat max_retries"
    and "\<forall>i<k. attempt_exc loads fmt circular_id (service i) \<noteq> None"
    and "k < nat max_retries \<longrightarrow> attempt_exc loads fmt circular_id (service k) = None"
  shows "let st = extract_info_with_llm loads fmt max_retries service
                    circular_text circular_id circular_url subject;
             r = extracted_data st
         in (k < nat max_retries \<longrightarrow>
               posts st = k + 1 \<and>
               slept st = map (\<lambda>i. 5 * (int i + 1)) [0..<k] \<and>
               dict_get r ''extraction_successful'' = Some (JBool True)) \<and>
            (k = nat max_retries \<longrightarrow>
               posts st = k \<and>
               slept st = map (\<lambda>i. 5 * (int i + 1)) [0..<k - 1] \<and>
               dict_get r ''extraction_successful'' = Some (JBool False) \<and>
               (0 < max_retries \<longrightarrow>
                  (\<exists>msg. dict_get r ''llm_error_message'' = Some (JStr msg))))"
proof -
  let ?init = "\<lparr>extracted_data =
      get_default_extracted_data circular_id circular_url subject circular_text,
      response = None, slept = [], posts = 0\<rparr>"
  let ?st = "extract_info_with_llm loads fmt max_retries service
               circular_text circular_id circular_url subject"
  from assms(2)
  have fails: "\<forall>i\<in>set [0..<k]. attempt_exc loads fmt circular_id (service i) \<noteq> None"
    by simp
  have ok: "posts ?st = k + 1 \<and> slept ?st = map (\<lambda>i. 5 * (int i + 1)) [0..<k] \<and>
      dict_get (extracted_data ?st) ''extraction_successful'' = Some (JBool True)"
    if lt: "k < nat max_retries"
  proof -
    from lt assms(3) have succ: "attempt_exc loads fmt circular_id (service k) = None" by simp
    then obtain p where p: "attempt_parsed loads fmt circular_id (service k) = Some p"
      using attempt_exc_parsed by blast
    have eq: "?st = snd (try_body loads fmt circular_id (service k)
                (llm_loop loads fmt max_retries service circular_id [0..<k] ?init))"
      by (rule extract_first_ok[OF lt assms(2) succ])
    from lt have "min (nat (max_retries - 1)) k = k" by linarith
    then have "filter (\<lambda>i. int i < max_retries - 1) [0..<k] = [0..<k]"
      by (simp add: filter_less_upt)
    with fails show ?thesis
      unfolding eq
      by (simp add: try_body_posts try_body_slept loop_fail_posts loop_fail_slept
            try_body_data_ok[OF succ p] dict_get_set)
  qed
  have exhausted: "posts ?st = k \<and> slept ?st = map (\<lambda>i. 5 * (int i + 1)) [0..<k - 1] \<and>
      dict_get (extracted_data ?st) ''extraction_successful'' = Some (JBool False) \<and>
      (0 < max_retries \<longrightarrow>
         (\<exists>msg. dict_get (extracted_data ?st) ''llm_error_message'' = Some (JStr msg)))"
    if eq: "k = nat max_retries"
  proof -
    have st: "?st = llm_loop loads fmt max_retries service circular_id [0..<k] ?init"
      by (simp add: extract_info_with_llm_def eq)
    from eq have "min (nat (max_retries - 1)) k = k - 1" by linarith
    then have flt: "filter (\<lambda>i. int i < max_retries - 1) [0..<k] = [0..<k - 1]"
      by (simp add: filter_less_upt)
    have msg: "\<exists>msg. dict_get (extracted_data ?st) ''llm_error_message'' = Some (JStr msg)"
      if "0 < max_retries"
    proof -
      from that eq have "[0..<k] \<noteq> []" by simp
      from loop_fail_message[OF fails this] show ?thesis unfolding st .
    qed
    from fails flt msg show ?thesis
      unfolding st
      by (simp add: loop_fail_posts loop_fail_slept loop_fail_get default_gets)
  qed
  from ok exhausted show ?thesis by (simp add: Let_def)
qed

theorem retry_policy_witness:
  "(let st = extract_info_with_llm (\<lambda>s. Inl (JSONDecodeError ''Expecting value'')) (\<lambda>v. [])
               3 (\<lambda>i. PostRaises (Timeout ''timed out''))
               (JStr ''GRB text'') (JStr ''42'') (JStr ''https://gcn.nasa.gov/circulars/42'') JNull
    in posts st = 3 \<and> slept st = [5, 10] \<and>
       dict_get (extracted_data st) ''extraction_successful'' = Some (JBool False) \<and>
       (\<exists>msg. dict_get (extracted_data st) ''llm_error_message'' = Some (JStr msg))) \<and>
   (let st = extract_info_with_llm (\<lambda>s. Inl (JSONDecodeError ''Expecting value'')) (\<lambda>v. [])
               3 (\<lambda>i. if i = 0 then PostRaises (Timeout ''timed out'')
                       else Responds (JObj [(''model'', JStr ''m''),
                                            (''response'', JObj [(''ra'', JStr ''12:00'')])]) [])
               (JStr ''GRB text'') (JStr ''42'') (JStr ''https://gcn.nasa.gov/circulars/42'') JNull
    in posts st = 2 \<and> slept st = [5] \<and>
       dict_get (extracted_data st) ''extraction_successful'' = Some (JBool True))"
proof -
  let ?loads = "\<lambda>s::string. Inl (JSONDecodeError ''Expecting value'') :: py_exc + json"
  let ?fmt = "\<lambda>v::json. [] :: string"
  let ?timeouts = "\<lambda>i::nat. PostRaises (Timeout ''timed out'')"
  let ?answer = "Responds (JObj [(''model'', JStr ''m''),
                   (''response'', JObj [(''ra'', JStr ''12:00'')])]) []"
  let ?second = "\<lambda>i::nat. if i = 0 then PostRaises (Timeout ''timed out'') else ?answer"
  have a1: "3 \<le> nat 3" by simp
  have a2: "\<forall>i<3. attempt_exc ?loads ?fmt (JStr ''42'') (?timeouts i) \<noteq> None"
    by (simp add: attempt_exc_def try_body_def init_state_def)
  have a3: "3 < nat 3 \<longrightarrow> attempt_exc ?loads ?fmt (JStr ''42'') (?timeouts 3) = None" by simp
  have b1: "1 \<le> nat 3" by simp
  have b2: "\<forall>i<1. attempt_exc ?loads ?fmt (JStr ''42'') (?second i) \<noteq> None"
    by (simp add: attempt_exc_def try_body_def init_state_def)
  have ok: "attempt_exc ?loads ?fmt (JStr ''42'') ?answer = None" by code_simp
  then have b3: "1 < nat 3 \<longrightarrow> attempt_exc ?loads ?fmt (JStr ''42'') (?second 1) = None"
    by simp
  have m1: "map (\<lambda>i. 5 * (int i + 1)) [0..<3 - 1] = [5, 10]" by code_simp
  have m2: "map (\<lambda>i. 5 * (int i + 1)) [0..<1] = [5]" by code_simp
  from retry_policy[OF a1 a2 a3, of "JStr ''GRB text''"
      "JStr ''https://gcn.nasa.gov/circulars/42''" JNull] m1
  have w1: "let st = extract_info_with_llm ?loads ?fmt 3 ?timeouts
               (JStr ''GRB text'') (JStr ''42'') (JStr ''https://gcn.nasa.gov/circulars/42'') JNull
    in posts st = 3 \<and> slept st = [5, 10] \<and>
       dict_get (extracted_data st) ''extraction_successful'' = Some (JBool False) \<and>
       (\<exists>msg. dict_get (extracted_data st) ''llm_error_message'' = Some (JStr msg))"
    by (simp add: Let_def)
  from retry_policy[OF b1 b2 b3, of "JStr ''GRB text''"
      "JStr ''https://gcn.nasa.gov/circulars/42''" JNull] m2
  have w2: "let st = extract_info_with_llm ?loads ?fmt 3 ?second
               (JStr ''GRB text'') (JStr ''42'') (JStr ''https://gcn.nasa.gov/circulars/42'') JNull
    in posts st = 2 \<and> slept st = [5] \<and>
       dict_get (extracted_data st) ''extraction_successful'' = Some (JBool True)"
    by (simp add: Let_def)
  from w1 w2 show ?thesis by simp
qed

lemma map_of_filter_key:
  "P k \<Longrightarrow> map_of (filter (\<lambda>(k', v). P k') kvs) k = map_of kvs k"
  by (induction kvs) auto

lemma merge_ignores_protected:
  "merge_keys ks (JObj (filter (\<lambda>(k, v). k \<notin> set protected_keys) kvs)) d =
   merge_keys ks (JObj kvs) d"
proof (induction ks arbitrary: d)
  case Nil
  show ?case by simp
next
  case (Cons key ks)
  show ?case
  proof (cases "key \<in> set protected_keys")
    case True
    with Cons show ?thesis by auto
  next
    case False
    then have "map_of (filter (\<lambda>(k, v). k \<notin> set protected_keys) kvs) key = map_of kvs key"
      using map_of_filter_key[of "\<lambda>k. k \<notin> set protected_keys" key kvs] by simp
    moreover from False
    have "key \<in> fst ` set (filter (\<lambda>(k, v). k \<notin> set protected_keys) kvs) \<longleftrightarrow>
          key \<in> fst ` set kvs"
      by force
    ultimately show ?thesis using False Cons by (simp split: option.splits)
  qed
qed

lemma first_ok_data:
  assumes "k < nat m" and "\<forall>i<k. attempt_exc l f c (service i) \<noteq> None"
    and "attempt_exc l f c (service k) = None"
    and "attempt_parsed l f c (service k) = Some p"
  shows "extracted_data (extract_info_with_llm l f m service t c u sj) =
     dict_set (coerce_bools bool_keys (snd (merge_keys schema_keys p
       (extracted_data (llm_loop l f m service c [0..<k]
          \<lparr>extracted_data = get_default_extracted_data c u sj t,
           response = None, slept = [], posts = 0\<rparr>)))))
       ''extraction_successful'' (JBool True)"
  by (simp add: extract_first_ok[OF assms(1,2,3)] try_body_data_ok[OF assms(3,4)])

lemma first_ok_bool:
  assumes "k < nat m" and "\<forall>i<k. attempt_exc l f c (service i) \<noteq> None"
    and "attempt_exc l f c (service k) = None"
    and "attempt_parsed l f c (service k) = Some (JObj kvs)"
    and key: "key \<in> set bool_keys"
  shows "dict_get (extracted_data (extract_info_with_llm l f m service t c u sj)) key =
     Some (JBool (spec_bool (map_of kvs key)))"
proof -
  let ?d = "extracted_data (llm_loop l f m service c [0..<k]
          \<lparr>extracted_data = get_default_extracted_data c u sj t,
           response = None, slept = [], posts = 0\<rparr>)"
  from key have ne: "key \<noteq> ''extraction_successful''" "key \<noteq> ''llm_error_message''"
    by (auto simp: bool_keys_def)
  from assms(2) have "\<forall>i\<in>set [0..<k]. attempt_exc l f c (service i) \<noteq> None" by simp
  from loop_fail_get[OF this ne(2)] key
  have d: "dict_get ?d key = Some (JBool False)"
    by (auto simp: bool_keys_def default_gets)
  have "spec_bool (dict_get (snd (merge_keys schema_keys (JObj kvs) ?d)) key) =
        spec_bool (map_of kvs key)"
  proof (cases "key \<in> fst ` set kvs")
    case True
    moreover from key have "key \<in> set schema_keys" "key \<notin> set protected_keys"
      by (auto simp: bool_keys_def schema_keys_eval protected_keys_def)
    ultimately show ?thesis by (simp add: merge_obj_get)
  next
    case False
    then have "map_of kvs key = None" by (simp add: map_of_eq_None_iff)
    with False d show ?thesis by (simp add: merge_obj_get)
  qed
  with ne key show ?thesis
    by (simp add: first_ok_data[OF assms(1,2,3,4)] dict_get_set coerce_get)
qed

text \<open>
  Claim C5.  In every record \<^verbatim>\<open>extract_info_with_llm\<close> returns, whatever the
  service answered and whatever values the parsed payload holds, the fields
  \<^verbatim>\<open>is_trigger_event\<close>, \<^verbatim>\<open>is_upper_limit\<close> and \<^verbatim>\<open>multiple_bands_reported\<close> are
  present and hold a boolean.  When the attempt that returns parsed the answer to a
  dictionary, each of the three fields is the coercion of the payload's value: a
  boolean stays, a string is true exactly when its lower case is \<^verbatim>\<open>true\<close>, and any
  other value, or a missing one, gives false.
\<close>

theorem boolean_fields_coerced:
  "let r = extracted_data (extract_info_with_llm loads fmt max_retries service
             circular_text circular_id circular_url subject)
   in (\<exists>b1 b2 b3.
         dict_get r ''is_trigger_event'' = Some (JBool b1) \<and>
         dict_get r ''is_upper_limit'' = Some (JBool b2) \<and>
         dict_get r ''multiple_bands_reported'' = Some (JBool b3)) \<and>
      (\<forall>k kvs.
         k < nat max_retries \<and>
         (\<forall>i<k. attempt_exc loads fmt circular_id (service i) \<noteq> None) \<and>
         attempt_exc loads fmt circular_id (service k) = None \<and>
         attempt_parsed loads fmt circular_id (service k) = Some (JObj kvs) \<longrightarrow>
         dict_get r ''is_trigger_event'' =
           Some (JBool (spec_bool (map_of kvs ''is_trigger_event''))) \<and>
         dict_get r ''is_upper_limit'' =
           Some (JBool (spec_bool (map_of kvs ''is_upper_limit''))) \<and>
         dict_get r ''multiple_bands_reported'' =
           Some (JBool (spec_bool (map_of kvs ''multiple_bands_reported''))))"
proof -
  let ?init = "\<lparr>extracted_data =
      get_default_extracted_data circular_id circular_url subject circular_text,
      response = None, slept = [], posts = 0\<rparr>"
  have always: "\<exists>b. dict_get (extracted_data (extract_info_with_llm loads fmt max_retries
      service circular_text circular_id circular_url subject)) key = Some (JBool b)"
    if "key \<in> set bool_keys" for key
  proof -
    from that have "\<exists>b. dict_get (extracted_data ?init) key = Some (JBool b)"
      by (auto simp: bool_keys_def default_gets)
    from loop_bools[OF that this] show ?thesis
      by (simp add: extract_info_with_llm_def)
  qed
  have keys: "''is_trigger_event'' \<in> set bool_keys" "''is_upper_limit'' \<in> set bool_keys"
    "''multiple_bands_reported'' \<in> set bool_keys"
    by (simp_all add: bool_keys_def)
  show ?thesis
    unfolding Let_def
    using always[OF keys(1)] always[OF keys(2)] always[OF keys(3)]
      first_ok_bool[where l = loads and f = fmt and c = circular_id and m = max_retries
        and service = service and t = circular_text and u = circular_url and sj = subject]
      keys
    by blast
qed


theorem boolean_fields_coerced_witness:
  "let r = extracted_data (extract_info_with_llm
             (\<lambda>s. Inl (JSONDecodeError ''Expecting value'')) (\<lambda>v. []) 3
             (\<lambda>i. Responds (JObj [(''model'', JStr ''m''),
                     (''response'', JObj [(''is_trigger_event'', JInt 1),
                                          (''is_upper_limit'', JStr ''TRUE''),
                                          (''multiple_bands_reported'', JBool True)])]) [])
             (JStr ''GRB text'') (JStr ''42'') (JStr ''https://gcn.nasa.gov/circulars/42'') JNull)
   in dict_get r ''is_trigger_event'' = Some (JBool False) \<and>
      dict_get r ''is_upper_limit'' = Some (JBool True) \<and>
      dict_get r ''multiple_bands_reported'' = Some (JBool True)"
proof -
  let ?loads = "\<lambda>s::string. Inl (JSONDecodeError ''Expecting value'') :: py_exc + json"
  let ?fmt = "\<lambda>v::json. [] :: string"
  let ?kvs = "[(''is_trigger_event'', JInt 1), (''is_upper_limit'', JStr ''TRUE''),
               (''multiple_bands_reported'', JBool True)]"
  let ?answer = "Responds (JObj [(''model'', JStr ''m''), (''response'', JObj ?kvs)]) []"
  have h1: "(0::nat) < nat 3" by simp
  have h2: "\<forall>i<0::nat. attempt_exc ?loads ?fmt (JStr ''42'') ?answer \<noteq> None" by simp
  have h3: "attempt_exc ?loads ?fmt (JStr ''42'') ?answer = None" by code_simp
  have h4: "attempt_parsed ?loads ?fmt (JStr ''42'') ?answer = Some (JObj ?kvs)" by code_simp
  have v: "spec_bool (map_of ?kvs ''is_trigger_event'') = False"
    "spec_bool (map_of ?kvs ''is_upper_limit'') = True"
    "spec_bool (map_of ?kvs ''multiple_bands_reported'') = True"
    by code_simp+
  from boolean_fields_coerced[of ?loads ?fmt 3 "\<lambda>i. ?answer" "JStr ''GRB text''" "JStr ''42''"
      "JStr ''https://gcn.nasa.gov/circulars/42''" JNull]
  have "\<forall>k kvs. k < nat 3 \<and>
         (\<forall>i<k. attempt_exc ?loads ?fmt (JStr ''42'') ?answer \<noteq> None) \<and>
         attempt_exc ?loads ?fmt (JStr ''42'') ?answer = None \<and>
         attempt_parsed ?loads ?fmt (JStr ''42'') ?answer = Some (JObj kvs) \<longrightarrow>
         (let r = extracted_data (extract_info_with_llm ?loads ?fmt 3 (\<lambda>i. ?answer)
             (JStr ''GRB text'') (JStr ''42'') (JStr ''https://gcn.nasa.gov/circulars/42'') JNull)
          in dict_get r ''is_trigger_event'' =
               Some (JBool (spec_bool (map_of kvs ''is_trigger_event''))) \<and>
             dict_get r ''is_upper_limit'' =
               Some (JBool (spec_bool (map_of kvs ''is_upper_limit''))) \<and>
             dict_get r ''multiple_bands_reported'' =
               Some (JBool (spec_bool (map_of kvs ''multiple_bands_reported''))))"
    unfolding Let_def by blast
  from this[rule_format, of 0 ?kvs] h1 h2 h3 h4 v show ?thesis
    unfolding Let_def by simp
qed

text \<open>
  Claim C9.  The record \<^verbatim>\<open>extract_info_with_llm\<close> returns has \<^verbatim>\<open>circular_id\<close>,
  \<^verbatim>\<open>circular_url\<close>, \<^verbatim>\<open>subject\<close> and \<^verbatim>\<open>raw_text\<close> equal to the arguments of the
  call, whatever the service answered.  Applying a parsed payload to a record leaves
  these four fields and \<^verbatim>\<open>llm_error_message\<close> as they were, and a dictionary
  payload acts exactly as the same payload without its six protected keys: their
  values are never merged.
\<close>

theorem protected_fields_kept:
  "(let r = extracted_data (extract_info_with_llm loads fmt max_retries service
              circular_text circular_id circular_url subject)
    in dict_get r ''circular_id'' = Some circular_id \<and>
       dict_get r ''circular_url'' = Some circular_url \<and>
       dict_get r ''subject'' = Some subject \<and>
       dict_get r ''raw_text'' = Some circular_text) \<and>
   (let d' = snd (apply_parsed parsed_llm_json d)
    in dict_get d' ''circular_id'' = dict_get d ''circular_id'' \<and>
       dict_get d' ''circular_url'' = dict_get d ''circular_url'' \<and>
       dict_get d' ''subject'' = dict_get d ''subject'' \<and>
       dict_get d' ''raw_text'' = dict_get d ''raw_text'' \<and>
       dict_get d' ''llm_error_message'' = dict_get d ''llm_error_message'') \<and>
   apply_parsed (JObj (filter (\<lambda>(k, v). k \<notin> set protected_keys) kvs)) d =
     apply_parsed (JObj kvs) d"
proof -
  have prot: "''circular_id'' \<in> set protected_keys" "''circular_url'' \<in> set protected_keys"
    "''subject'' \<in> set protected_keys" "''raw_text'' \<in> set protected_keys"
    "''llm_error_message'' \<in> set protected_keys"
    by (simp_all add: protected_keys_def)
  have whole: "dict_get (extracted_data (extract_info_with_llm loads fmt max_retries service
      circular_text circular_id circular_url subject)) k =
      dict_get (get_default_extracted_data circular_id circular_url subject circular_text) k"
    if "k \<in> set protected_keys" "k \<noteq> ''extraction_successful''" "k \<noteq> ''llm_error_message''"
    for k
    using loop_frame[OF that] by (simp add: extract_info_with_llm_def)
  have step: "dict_get (snd (apply_parsed parsed_llm_json d)) k = dict_get d k"
    if "k \<in> set protected_keys" "k \<noteq> ''extraction_successful''" for k
    using apply_parsed_frame[OF that] .
  have same: "apply_parsed (JObj (filter (\<lambda>(k, v). k \<notin> set protected_keys) kvs)) d =
     apply_parsed (JObj kvs) d"
    by (simp add: apply_parsed_def merge_ignores_protected)
  show ?thesis
    unfolding Let_def
    using whole[OF prot(1)] whole[OF prot(2)] whole[OF prot(3)] whole[OF prot(4)]
      step[OF prot(1)] step[OF prot(2)] step[OF prot(3)] step[OF prot(4)] step[OF prot(5)] same
    by (simp add: default_gets)
qed

text \<open>
  Claim C10.  The record built by \<^verbatim>\<open>get_default_extracted_data\<close> has exactly the
  properties of the extraction schema as its keys: the fields the caller does not
  supply are present with the value \<^verbatim>\<open>None\<close>, except the boolean ones, which are
  present with the value false.  Every record \<^verbatim>\<open>extract_info_with_llm\<close> returns,
  after a success or after failures, still has exactly the schema's properties as
  its keys.
\<close>

theorem every_schema_field_present:
  "(let d = get_default_extracted_data circular_id circular_url subject raw_text
    in set (dict_keys d) = set schema_keys \<and>
       dict_get d ''event_time_utc'' = Some JNull \<and>
       dict_get d ''time_since_trigger'' = Some JNull \<and>
       dict_get d ''ra'' = Some JNull \<and>
       dict_get d ''dec'' = Some JNull \<and>
       dict_get d ''magnitude'' = Some JNull \<and>
       dict_get d ''magnitude_error'' = Some JNull \<and>
       dict_get d ''wavelength_band'' = Some JNull \<and>
       dict_get d ''telescope'' = Some JNull \<and>
       dict_get d ''observatory'' = Some JNull \<and>
       dict_get d ''llm_error_message'' = Some JNull \<and>
       dict_get d ''is_trigger_event'' = Some (JBool False) \<and>
       dict_get d ''is_upper_limit'' = Some (JBool False) \<and>
       dict_get d ''multiple_bands_reported'' = Some (JBool False) \<and>
       dict_get d ''extraction_successful'' = Some (JBool False)) \<and>
   set (dict_keys (extracted_data (extract_info_with_llm loads fmt max_retries service
          raw_text circular_id circular_url subject))) = set schema_keys"
proof -
  let ?d = "get_default_extracted_data circular_id circular_url subject raw_text"
  have nulls: "dict_get ?d ''event_time_utc'' = Some JNull"
    "dict_get ?d ''time_since_trigger'' = Some JNull"
    "dict_get ?d ''ra'' = Some JNull" "dict_get ?d ''dec'' = Some JNull"
    "dict_get ?d ''magnitude'' = Some JNull" "dict_get ?d ''magnitude_error'' = Some JNull"
    "dict_get ?d ''wavelength_band'' = Some JNull" "dict_get ?d ''telescope'' = Some JNull"
    "dict_get ?d ''observatory'' = Some JNull"
    by (simp_all add: default_record dict_get_def)
  have "dict_keys (extracted_data (extract_info_with_llm loads fmt max_retries service
          raw_text circular_id circular_url subject)) = dict_keys ?d"
    using loop_keys[of "\<lparr>extracted_data = ?d, response = None, slept = [], posts = 0\<rparr>"]
      schema_sub_default
    by (simp add: extract_info_with_llm_def)
  with nulls show ?thesis
    by (simp add: Let_def default_keys_schema default_gets)
qed

text \<open>
  Claim C2 says that a record with \<^verbatim>\<open>extraction_successful\<close> true has a null
  \<^verbatim>\<open>llm_error_message\<close>.  The code does not keep this: the handler of a failed
  attempt writes the message into the record, and the attempt that returns later
  sets \<^verbatim>\<open>extraction_successful\<close> without clearing it.  Whenever the first attempt
  that returns is not attempt 0, the record returned is marked successful and
  carries a message.
\<close>

theorem success_after_failure_keeps_message:
  assumes "0 < k" and "k < nat max_retries"
    and "\<forall>i<k. attempt_exc loads fmt circular_id (service i) \<noteq> None"
    and "attempt_exc loads fmt circular_id (service k) = None"
  shows "let r = extracted_data (extract_info_with_llm loads fmt max_retries service
                   circular_text circular_id circular_url subject)
         in dict_get r ''extraction_successful'' = Some (JBool True) \<and>
            (\<exists>msg. dict_get r ''llm_error_message'' = Some (JStr msg))"
proof -
  let ?init = "\<lparr>extracted_data =
      get_default_extracted_data circular_id circular_url subject circular_text,
      response = None, slept = [], posts = 0\<rparr>"
  from assms(4) obtain p where p: "attempt_parsed loads fmt circular_id (service k) = Some p"
    using attempt_exc_parsed by blast
  from assms(3)
  have fails: "\<forall>i\<in>set [0..<k]. attempt_exc loads fmt circular_id (service i) \<noteq> None"
    by simp
  from assms(1) have "[0..<k] \<noteq> []" by simp
  from loop_fail_message[OF fails this]
  obtain msg where "dict_get (extracted_data
      (llm_loop loads fmt max_retries service circular_id [0..<k] ?init))
      ''llm_error_message'' = Some (JStr msg)"
    by blast
  moreover have "''llm_error_message'' \<in> set protected_keys"
    by (simp add: protected_keys_def)
  ultimately show ?thesis
    by (simp add: Let_def first_ok_data[OF assms(2,3,4) p] ok_data_frame)
       (simp add: dict_get_set)
qed

theorem success_after_failure_keeps_message_witness:
  "let r = extracted_data (extract_info_with_llm
             (\<lambda>s. Inl (JSONDecodeError ''Expecting value'')) (\<lambda>v. []) 3
             (\<lambda>i. if i = 0 then PostRaises (Timeout ''timed out'')
                   else Responds (JObj [(''model'', JStr ''m''),
                          (''response'', JObj [(''ra'', JStr ''12:00'')])]) [])
             (JStr ''GRB text'') (JStr ''42'') (JStr ''https://gcn.nasa.gov/circulars/42'') JNull)
   in dict_get r ''extraction_successful'' = Some (JBool True) \<and>
      dict_get r ''llm_error_message'' = Some (JStr ''API Request Timeout (attempt 1)'')"
proof -
  let ?loads = "\<lambda>s::string. Inl (JSONDecodeError ''Expecting value'') :: py_exc + json"
  let ?fmt = "\<lambda>v::json. [] :: string"
  let ?answer = "Responds (JObj [(''model'', JStr ''m''),
                   (''response'', JObj [(''ra'', JStr ''12:00'')])]) []"
  let ?service = "\<lambda>i::nat. if i = 0 then PostRaises (Timeout ''timed out'') else ?answer"
  have h1: "(0::nat) < 1" by simp
  have h2: "1 < nat 3" by simp
  have h3: "\<forall>i<1. attempt_exc ?loads ?fmt (JStr ''42'') (?service i) \<noteq> None"
    by (simp add: attempt_exc_def try_body_def init_state_def)
  have "attempt_exc ?loads ?fmt (JStr ''42'') ?answer = None" by code_simp
  then have h4: "attempt_exc ?loads ?fmt (JStr ''42'') (?service 1) = None" by simp
  have msg: "dict_get (extracted_data (extract_info_with_llm ?loads ?fmt 3 ?service
      (JStr ''GRB text'') (JStr ''42'') (JStr ''https://gcn.nasa.gov/circulars/42'') JNull))
      ''llm_error_message'' = Some (JStr ''API Request Timeout (attempt 1)'')"
    by code_simp
  from success_after_failure_keeps_message[OF h1 h2 h3 h4, of "JStr ''GRB text''"
      "JStr ''https://gcn.nasa.gov/circulars/42''" JNull] msg
  show ?thesis by (simp add: Let_def)
qed

section \<open>The text retriever: which text is returned\<close>





section \<open>The stores: a corrupt file, and saving then loading\<close>

lemma time_unbound: "global_name ''time'' = Inl (NameError ''name time is not defined'')"
  by (simp add: global_name_def data_manager_names_def)

text \<open>
  Claim C1 says that \<^verbatim>\<open>load_output_data\<close>, given a result file that is not valid
  JSON, renames it to a backup name, returns an empty list and does not raise.  The
  code does not do this: \<^verbatim>\<open>data_manager.py\<close> never imports \<^verbatim>\<open>time\<close>, so the
  handler raises \<^verbatim>\<open>NameError\<close> where it builds the backup name.  For every result
  file with text that \<^verbatim>\<open>json.loads\<close> rejects, the function raises, the disk is
  left as it was (no backup file), and the start of the main loop fails with the
  same exception.
\<close>

theorem corrupt_result_file_raises:
  assumes "files d (OUTPUT_JSON_FILE e) = Some content"
    and "py_strip content \<noteq> []"
    and "json_loads e content = Inl ex"
    and "is_JSONDecodeError ex"
    and "\<not> io_fails e OpOpenRead"
  shows "load_output_data (json_loads e) now (io_fails e) (OUTPUT_JSON_FILE e) d =
           (Inl (NameError ''name time is not defined''), d) \<and>
         main_loop_start e now d = Inl (NameError ''name time is not defined'')"
proof -
  from assms have "load_output_data (json_loads e) now (io_fails e) (OUTPUT_JSON_FILE e) d =
           (Inl (NameError ''name time is not defined''), d)"
    by (simp add: load_output_data_def path_exists_def time_unbound)
  then show ?thesis by (simp add: main_loop_start_def)
qed

theorem corrupt_result_file_raises_witness:
  "load_output_data (\<lambda>s. Inl (JSONDecodeError ''Expecting property name''))
     ''20250101120000'' (\<lambda>op. False) ''gcn_circulars_data.json''
     \<lparr>files = [''gcn_circulars_data.json'' \<mapsto> ''{not json''], dirs = {}\<rparr> =
   (Inl (NameError ''name time is not defined''),
    \<lparr>files = [''gcn_circulars_data.json'' \<mapsto> ''{not json''], dirs = {}\<rparr>)"
proof -
  let ?e = "\<lparr>json_loads = \<lambda>s. Inl (JSONDecodeError ''Expecting property name''),
             json_dumps = \<lambda>v. Inr [], py_format = \<lambda>v. [],
             io_fails = \<lambda>op. False, MAX_RETRIES_LLM = 3, CHECK_INTERVAL_SECONDS = 3600,
             PROCESSED_CIRCULARS_FILE = ''processed_circulars.txt'',
             OUTPUT_JSON_FILE = ''gcn_circulars_data.json''\<rparr>"
  let ?d = "\<lparr>files = [''gcn_circulars_data.json'' \<mapsto> ''{not json''], dirs = {}\<rparr>"
  have h1: "files ?d (OUTPUT_JSON_FILE ?e) = Some ''{not json''" by simp
  have h2: "py_strip ''{not json'' \<noteq> []" by code_simp
  have h3: "json_loads ?e ''{not json'' = Inl (JSONDecodeError ''Expecting property name'')"
    by simp
  have h4: "is_JSONDecodeError (JSONDecodeError ''Expecting property name'')" by simp
  have h5: "\<not> io_fails ?e OpOpenRead" by simp
  from corrupt_result_file_raises[OF h1 h2 h3 h4 h5, of "''20250101120000''"]
  show ?thesis by simp
qed








section \<open>Facts about the polling loop\<close>

subsection \<open>One reference at a time\<close>


lemma process_single_kept:
  "processed_ids (process_single_circular e w c st) = processed_ids st"
  "on_disk (process_single_circular e w c st) = on_disk st"
  "new_circulars_processed_this_cycle (process_single_circular e w c st) =
     new_circulars_processed_this_cycle st"
  "skipped_due_to_id_count (process_single_circular e w c st) = skipped_due_to_id_count st"
  "retrieved (process_single_circular e w c st) = retrieved st @ [circ_id c]"
  by (simp_all add: process_single_circular_def Let_def)



lemma record_id_fields:
  "processed_ids (record_id st e i) = insert i (processed_ids st)"
  "all_extracted_data (record_id st e i) = all_extracted_data st"
  "notified (record_id st e i) = notified st"
  "retrieved (record_id st e i) = retrieved st"
  "extracted (record_id st e i) = extracted st"
  "pauses (record_id st e i) = pauses st"
  "new_circulars_processed_this_cycle (record_id st e i) = new_circulars_processed_this_cycle st"
  "skipped_due_to_id_count (record_id st e i) = skipped_due_to_id_count st"
  "on_disk (record_id st e i) =
     save_processed_id (io_fails e) (PROCESSED_CIRCULARS_FILE e) i (on_disk st)"
  by (simp_all add: record_id_def)

text \<open>A reference is new when its identifier reads as a number that is not below
  the floor and is not in the ledger.\<close>

lemma loop_body_old:
  assumes "circ_id c \<in> processed_ids st"
  shows "loop_body e fl world c st = st"
  using assms by (simp add: loop_body_def Let_def split: option.splits)

lemma loop_body_ids:
  "processed_ids (loop_body e fl world c st) = insert (circ_id c) (processed_ids st)"
  by (auto simp: loop_body_def Let_def record_id_fields process_single_kept
      split: option.splits)





lemma for_ids:
  "processed_ids (for_circulars e fl world cs st) = processed_ids st \<union> circ_id ` set cs"
  by (induction cs arbitrary: st) (auto simp: loop_body_ids)

lemma for_noop:
  "circ_id ` set cs \<subseteq> processed_ids st \<Longrightarrow> for_circulars e fl world cs st = st"
  by (induction cs arbitrary: st) (auto simp: loop_body_old)

subsection \<open>A whole pass\<close>












lemma startswith_more: "startswith s x \<Longrightarrow> startswith (s @ t) x"
  by (induction s x rule: startswith.induct) auto

lemma contains_more: "str_contains s x \<Longrightarrow> str_contains (s @ t) x"
proof (induction s)
  case Nil
  then show ?case by (cases t) auto
next
  case (Cons c cs)
  then show ?case using startswith_more[of "c # cs" x t] by auto
qed








section \<open>The polling loop: the floor and the second pass\<close>








lemma second_pass:
  "for_circulars e fl world2 cs (for_circulars e fl world cs st) = for_circulars e fl world cs st"
  by (rule for_noop) (simp add: for_ids)

lemma poll_cycle_Cons:
  "poll_cycle e fl world (Some (c # cs)) st =
     (let st1 = for_circulars e fl world (rev (c # cs))
                  (st\<lparr>new_circulars_processed_this_cycle := 0, skipped_due_to_id_count := 0\<rparr>)
      in if new_circulars_processed_this_cycle st1 > 0 then
           (case save_output_data (json_dumps e) (io_fails e) (OUTPUT_JSON_FILE e)
                   (JList (all_extracted_data st1)) (on_disk st1) of
              (Some ex, d) \<Rightarrow> Inl ex
            | (None, d) \<Rightarrow>
                Inr (st1\<lparr>on_disk := d, pauses := pauses st1 @ [CHECK_INTERVAL_SECONDS e]\<rparr>))
         else Inr (st1\<lparr>pauses := pauses st1 @ [CHECK_INTERVAL_SECONDS e]\<rparr>))"
  by (simp add: poll_cycle_def del: for_circulars.simps)

lemma poll_cycle_ids:
  assumes "poll_cycle e fl world (Some page) st = Inr st1"
  shows "circ_id ` set page \<subseteq> processed_ids st1"
proof (cases page)
  case Nil
  then show ?thesis by simp
next
  case (Cons c cs)
  let ?stA = "for_circulars e fl world (rev (c # cs))
                (st\<lparr>new_circulars_processed_this_cycle := 0, skipped_due_to_id_count := 0\<rparr>)"
  from assms have "poll_cycle e fl world (Some (c # cs)) st = Inr st1" unfolding Cons .
  then have "processed_ids st1 = processed_ids ?stA"
    by (auto simp: poll_cycle_Cons Let_def split: if_splits prod.splits option.splits
          simp del: for_circulars.simps rev.simps)
  then show ?thesis unfolding Cons by (auto simp add: for_ids simp del: for_circulars.simps)
qed

lemma poll_cycle_again:
  assumes "circ_id ` set page \<subseteq> processed_ids st1"
  shows "\<exists>st2. poll_cycle e fl world2 (Some page) st1 = Inr st2 \<and>
           all_extracted_data st2 = all_extracted_data st1 \<and>
           notified st2 = notified st1 \<and>
           retrieved st2 = retrieved st1 \<and>
           extracted st2 = extracted st1 \<and>
           processed_ids st2 = processed_ids st1 \<and>
           on_disk st2 = on_disk st1"
proof (cases page)
  case Nil
  then show ?thesis by (simp add: poll_cycle_def)
next
  case (Cons c cs)
  let ?st0 = "st1\<lparr>new_circulars_processed_this_cycle := 0, skipped_due_to_id_count := 0\<rparr>"
  from assms Cons have "circ_id ` set (rev (c # cs)) \<subseteq> processed_ids ?st0" by simp
  from for_noop[OF this]
  have "for_circulars e fl world2 (rev (c # cs)) ?st0 = ?st0" .
  then show ?thesis unfolding Cons poll_cycle_Cons Let_def by simp
qed


lemma save_no_raise:
  "\<not> fails OpMakedirs \<Longrightarrow> fst (save_output_data dumps fails out data_list d) = None"
  by (auto simp: save_output_data_def ensure_dir_def Let_def split: sum.splits prod.splits)

lemma poll_cycle_returns:
  assumes "\<not> io_fails e OpMakedirs"
  shows "\<exists>st1. poll_cycle e fl world (Some page) st = Inr st1"
proof (cases page)
  case Nil
  then show ?thesis by (simp add: poll_cycle_def)
next
  case (Cons c cs)
  let ?stA = "for_circulars e fl world (rev (c # cs))
                (st\<lparr>new_circulars_processed_this_cycle := 0, skipped_due_to_id_count := 0\<rparr>)"
  let ?saved = "save_output_data (json_dumps e) (io_fails e) (OUTPUT_JSON_FILE e)
                  (JList (all_extracted_data ?stA)) (on_disk ?stA)"
  have "fst ?saved = None"
    by (rule save_no_raise[where fails = "io_fails e", OF assms])
  then obtain d where "?saved = (None, d)" by (cases ?saved) auto
  then show ?thesis
    unfolding Cons poll_cycle_Cons Let_def
    by (simp del: for_circulars.simps rev.simps)
qed

text \<open>
  Claim C7.  A second pass over the same list, started from the state the first
  pass left, changes nothing: every identifier of the list is in the ledger after
  the first pass, so each reference is skipped, whatever the network would answer
  the second time: a reference whose identifier is in the ledger leaves the state
  as it is.  For whole cycles: when the first cycle over a list page ended
  without an exception, the second cycle over the same page ends without one and
  leaves the records, the notifications, the retrievals, the extractions, the ledger
  and the disk as the first cycle left them (no record is added, nothing is saved).
\<close>

theorem second_pass_adds_nothing:
  "for_circulars e fl world2 circs (for_circulars e fl world circs st) =
     for_circulars e fl world circs st \<and>
   (circ_id circ \<in> processed_ids st \<longrightarrow> loop_body e fl world circ st = st) \<and>
   (\<forall>st1. poll_cycle e fl world (Some page) st = Inr st1 \<longrightarrow>
      (\<exists>st2. poll_cycle e fl world2 (Some page) st1 = Inr st2 \<and>
         all_extracted_data st2 = all_extracted_data st1 \<and>
         notified st2 = notified st1 \<and>
         retrieved st2 = retrieved st1 \<and>
         extracted st2 = extracted st1 \<and>
         processed_ids st2 = processed_ids st1 \<and>
         on_disk st2 = on_disk st1))"
proof (intro conjI allI impI)
  show "for_circulars e fl world2 circs (for_circulars e fl world circs st) =
     for_circulars e fl world circs st"
    by (rule second_pass)
next
  assume "circ_id circ \<in> processed_ids st"
  then show "loop_body e fl world circ st = st" by (rule loop_body_old)
next
  fix st1
  assume first: "poll_cycle e fl world (Some page) st = Inr st1"
  show "\<exists>st2. poll_cycle e fl world2 (Some page) st1 = Inr st2 \<and>
         all_extracted_data st2 = all_extracted_data st1 \<and>
         notified st2 = notified st1 \<and>
         retrieved st2 = retrieved st1 \<and>
         extracted st2 = extracted st1 \<and>
         processed_ids st2 = processed_ids st1 \<and>
         on_disk st2 = on_disk st1"
    by (rule poll_cycle_again[OF poll_cycle_ids[OF first]])
qed

theorem second_pass_adds_nothing_witness:
  "let e = \<lparr>json_loads = \<lambda>s. Inl (JSONDecodeError ''Expecting value''),
             json_dumps = \<lambda>v. Inr ''[]'', py_format = \<lambda>v. [],
             io_fails = \<lambda>op. False, MAX_RETRIES_LLM = 3, CHECK_INTERVAL_SECONDS = 3600,
             PROCESSED_CIRCULARS_FILE = ''processed_circulars.txt'',
             OUTPUT_JSON_FILE = ''gcn_circulars_data.json''\<rparr>;
       world = (\<lambda>circ. \<lparr>w_page = None, w_gcn3 = None,
                          w_service = \<lambda>i. PostRaises (Timeout ''timed out'')\<rparr>);
       page = [\<lparr>circ_id = ''150'', circ_url = ''https://gcn.nasa.gov/circulars/150'',
                 circ_subject = Some (JStr ''GRB 020202'')\<rparr>,
               \<lparr>circ_id = ''42'', circ_url = ''https://gcn.nasa.gov/circulars/42'',
                 circ_subject = Some (JStr ''GRB 010101'')\<rparr>];
       st = \<lparr>processed_ids = {}, all_extracted_data = [],
              on_disk = \<lparr>files = Map.empty, dirs = {}\<rparr>,
              notified = [], retrieved = [], extracted = [], pauses = [],
              new_circulars_processed_this_cycle = 0, skipped_due_to_id_count = 0\<rparr>
   in \<exists>st1 st2.
        poll_cycle e None world (Some page) st = Inr st1 \<and>
        poll_cycle e None world (Some page) st1 = Inr st2 \<and>
        all_extracted_data st2 = all_extracted_data st1 \<and>
        notified st2 = notified st1 \<and>
        retrieved st2 = retrieved st1 \<and>
        extracted st2 = extracted st1 \<and>
        processed_ids st2 = processed_ids st1 \<and>
        on_disk st2 = on_disk st1"
proof -
  let ?e = "\<lparr>json_loads = \<lambda>s. Inl (JSONDecodeError ''Expecting value''),
             json_dumps = \<lambda>v. Inr ''[]'', py_format = \<lambda>v. [],
             io_fails = \<lambda>op. False, MAX_RETRIES_LLM = 3, CHECK_INTERVAL_SECONDS = 3600,
             PROCESSED_CIRCULARS_FILE = ''processed_circulars.txt'',
             OUTPUT_JSON_FILE = ''gcn_circulars_data.json''\<rparr>"
  let ?world = "\<lambda>circ::circ_info. \<lparr>w_page = None, w_gcn3 = None,
                          w_service = \<lambda>i. PostRaises (Timeout ''timed out'')\<rparr>"
  let ?page = "[\<lparr>circ_id = ''150'', circ_url = ''https://gcn.nasa.gov/circulars/150'',
                 circ_subject = Some (JStr ''GRB 020202'')\<rparr>,
               \<lparr>circ_id = ''42'', circ_url = ''https://gcn.nasa.gov/circulars/42'',
                 circ_subject = Some (JStr ''GRB 010101'')\<rparr>]"
  let ?st = "\<lparr>processed_ids = {}, all_extracted_data = [],
              on_disk = \<lparr>files = Map.empty, dirs = {}\<rparr>,
              notified = [], retrieved = [], extracted = [], pauses = [],
              new_circulars_processed_this_cycle = 0, skipped_due_to_id_count = 0\<rparr>"
  have "\<not> io_fails ?e OpMakedirs" by simp
  from poll_cycle_returns[where e = ?e and fl = None and world = ?world and page = ?page
      and st = ?st, OF this]
  obtain st1 where st1: "poll_cycle ?e None ?world (Some ?page) ?st = Inr st1" by blast
  from second_pass_adds_nothing[where e = ?e and fl = None and world = ?world
      and ?world2.0 = ?world and st = ?st and page = ?page and circs = "[]"] st1
  obtain st2 where "poll_cycle ?e None ?world (Some ?page) st1 = Inr st2 \<and>
         all_extracted_data st2 = all_extracted_data st1 \<and>
         notified st2 = notified st1 \<and>
         retrieved st2 = retrieved st1 \<and>
         extracted st2 = extracted st1 \<and>
         processed_ids st2 = processed_ids st1 \<and>
         on_disk st2 = on_disk st1"
    by blast
  with st1 show ?thesis unfolding Let_def by blast
qed

end
